theory Spec2Isabelle
  imports Complex_Main
begin

section \<open>CodeLens: the web UI's view logic and the API gateway's proxy route\<close>

text \<open>
  The development embeds the functions of the CodeLens web UI and API gateway that carry
  logic of their own: the selection list of the analysis-history page, the comparison page
  (language comparison, file lists, age difference, the guard on the \<open>ids\<close> parameter), the
  percentages of the results page and of the language-distribution chart, the status display
  and the two polling loops, the API client's request configuration, and the gateway's route
  to the source-code service.

  Conventions of the embedding.
  \<^item> A JavaScript object is the list of its own enumerable properties, in enumeration
    order; \<open>Object.keys\<close> is the list of the names. A property read \<open>obj[key]\<close> finds an own
    property first and a member of \<open>Object.prototype\<close> otherwise.
  \<^item> \<open>undefined\<close> (a missing property, the result of \<open>?.\<close> on a missing object) is \<open>None\<close>.
  \<^item> A number is a double: a rational that the binary64 format holds, a signed zero, an
    infinity or \<open>NaN\<close>. Arithmetic rounds the exact result to the nearest double, ties to even.
  \<^item> Strings are character lists.
  \<^item> Timers, HTTP requests and \<open>Date\<close> parsing are the runtime's: they occur as events or
    as parameters.
\<close>

subsection \<open>Objects and property reads\<close>

type_synonym 'v jsobject = "(string \<times> 'v) list"

definition object_keys :: "'v jsobject \<Rightarrow> string list" where
  "object_keys obj = map fst obj"

text \<open>The names of the members of \<open>Object.prototype\<close>; each member is a function or an object.\<close>

definition object_prototype_names :: "string list" where
  "object_prototype_names =
     [''constructor'', ''__defineGetter__'', ''__defineSetter__'', ''hasOwnProperty'',
      ''__lookupGetter__'', ''__lookupSetter__'', ''isPrototypeOf'', ''propertyIsEnumerable'',
      ''toString'', ''valueOf'', ''__proto__'', ''toLocaleString'']"

text \<open>
  What a property read yields when it yields something: the value of an own property, or
  the member of \<open>Object.prototype\<close> of that name.
\<close>

datatype 'v lookup = Own 'v | Inherited string

definition get_prop :: "'v jsobject \<Rightarrow> string \<Rightarrow> 'v lookup option" where
  "get_prop obj k =
     (case map_of obj k of
        Some v \<Rightarrow> Some (Own v)
      | None \<Rightarrow> if k \<in> set object_prototype_names then Some (Inherited k) else None)"

text \<open>
  Truthiness of the result of a property read, given the truthiness of own values: an
  inherited member is a function or an object, hence truthy.
\<close>

definition truthy_lookup :: "('v \<Rightarrow> bool) \<Rightarrow> 'v lookup option \<Rightarrow> bool" where
  "truthy_lookup truthy_value v =
     (case v of None \<Rightarrow> False | Some (Own x) \<Rightarrow> truthy_value x | Some (Inherited k) \<Rightarrow> True)"

text \<open>Truthiness of a string and of an optional string.\<close>

definition truthy_string :: "string \<Rightarrow> bool" where
  "truthy_string s = (s \<noteq> [])"

definition truthy_str :: "string option \<Rightarrow> bool" where
  "truthy_str v = (case v of None \<Rightarrow> False | Some s \<Rightarrow> s \<noteq> [])"

text \<open>\<open>Array.prototype.includes\<close> and \<open>Array.prototype.slice(0, n)\<close>.\<close>

definition array_includes :: "'a list \<Rightarrow> 'a \<Rightarrow> bool" where
  "array_includes xs x = (x \<in> set xs)"

definition slice0 :: "nat \<Rightarrow> 'a list \<Rightarrow> 'a list" where
  "slice0 n xs = take n xs"

text \<open>\<open>Array.prototype.join\<close>.\<close>

fun join :: "string \<Rightarrow> string list \<Rightarrow> string" where
  "join sep [] = []"
| "join sep [x] = x"
| "join sep (x # y # ys) = x @ sep @ join sep (y # ys)"

text \<open>Decimal digits of a natural number.\<close>

definition digit :: "nat \<Rightarrow> char" where
  "digit d = ''0123456789'' ! d"

fun decimal :: "nat \<Rightarrow> string" where
  "decimal n = (if 10 \<le> n then decimal (n div 10) @ [digit (n mod 10)] else [digit n])"

declare decimal.simps [simp del]

subsection \<open>Numbers\<close>

text \<open>
  \<open>Num q\<close> is the finite double of value \<open>q\<close>, with \<open>Num 0\<close> the positive zero; \<open>NegZero\<close> is
  the negative zero.
\<close>

datatype double = Num rat | NegZero | PosInf | NegInf | NaN

definition pow2 :: "int \<Rightarrow> rat" where
  "pow2 e = (if 0 \<le> e then 2 ^ nat e else 1 / 2 ^ nat (- e))"

fun ilog2 :: "int \<Rightarrow> int" where
  "ilog2 n = (if n < 2 then 0 else 1 + ilog2 (n div 2))"

declare ilog2.simps [simp del]

text \<open>The exponent \<open>e\<close> with \<open>2^e \<le> q < 2^(e+1)\<close>, for a positive rational.\<close>

definition floor_log2 :: "rat \<Rightarrow> int" where
  "floor_log2 q =
     (let (a, b) = quotient_of q; d = ilog2 a - ilog2 b
      in if pow2 d \<le> q then d else d - 1)"

definition round_even :: "rat \<Rightarrow> int" where
  "round_even q =
     (let f = \<lfloor>q\<rfloor>; r = q - of_int f
      in if r < 1 / 2 then f else if 1 / 2 < r then f + 1 else if even f then f else f + 1)"

text \<open>
  Rounding of a positive rational to binary64: 53 significant bits, the spacing never
  below \<open>2^-1074\<close>, and overflow (\<open>None\<close>) from \<open>2^1024\<close> on.
\<close>

definition round_magnitude :: "rat \<Rightarrow> rat option" where
  "round_magnitude q =
     (let e = floor_log2 q;
          u = pow2 (max (e - 52) (- 1074));
          m = round_even (q / u)
      in if 1024 \<le> e \<or> (e = 1023 \<and> m = 2 ^ 53) then None else Some (of_int m * u))"

text \<open>The double of an exact result that is not zero by cancellation of signed zeros.\<close>

definition of_exact :: "rat \<Rightarrow> double" where
  "of_exact q =
     (if q = 0 then Num 0
      else case round_magnitude \<bar>q\<bar> of
             None \<Rightarrow> if q < 0 then NegInf else PosInf
           | Some r \<Rightarrow> if r = 0 then (if q < 0 then NegZero else Num 0)
                       else Num (if q < 0 then - r else r))"

fun is_negative :: "double \<Rightarrow> bool" where
  "is_negative (Num q) = (q < 0)"
| "is_negative NegZero = True"
| "is_negative NegInf = True"
| "is_negative PosInf = False"
| "is_negative NaN = False"

fun is_zero :: "double \<Rightarrow> bool" where
  "is_zero (Num q) = (q = 0)"
| "is_zero NegZero = True"
| "is_zero d = False"

fun is_infinite :: "double \<Rightarrow> bool" where
  "is_infinite PosInf = True"
| "is_infinite NegInf = True"
| "is_infinite d = False"

fun finite_value :: "double \<Rightarrow> rat" where
  "finite_value (Num q) = q"
| "finite_value d = 0"

definition signed_zero :: "bool \<Rightarrow> double" where
  "signed_zero negative = (if negative then NegZero else Num 0)"

definition signed_infinity :: "bool \<Rightarrow> double" where
  "signed_infinity negative = (if negative then NegInf else PosInf)"

fun dneg :: "double \<Rightarrow> double" where
  "dneg (Num q) = (if q = 0 then NegZero else Num (- q))"
| "dneg NegZero = Num 0"
| "dneg PosInf = NegInf"
| "dneg NegInf = PosInf"
| "dneg NaN = NaN"

fun dabs :: "double \<Rightarrow> double" where
  "dabs (Num q) = Num \<bar>q\<bar>"
| "dabs NegZero = Num 0"
| "dabs PosInf = PosInf"
| "dabs NegInf = PosInf"
| "dabs NaN = NaN"

text \<open>Addition, subtraction, multiplication and division of doubles.\<close>

definition dadd :: "double \<Rightarrow> double \<Rightarrow> double" where
  "dadd x y =
     (if x = NaN \<or> y = NaN then NaN
      else if is_infinite x \<and> is_infinite y then (if x = y then x else NaN)
      else if is_infinite x then x
      else if is_infinite y then y
      else if finite_value x + finite_value y = 0 then signed_zero (x = NegZero \<and> y = NegZero)
      else of_exact (finite_value x + finite_value y))"

definition dsub :: "double \<Rightarrow> double \<Rightarrow> double" where
  "dsub x y = dadd x (dneg y)"

definition dmul :: "double \<Rightarrow> double \<Rightarrow> double" where
  "dmul x y =
     (if x = NaN \<or> y = NaN then NaN
      else if (is_infinite x \<and> is_zero y) \<or> (is_zero x \<and> is_infinite y) then NaN
      else if is_infinite x \<or> is_infinite y
        then signed_infinity (is_negative x \<noteq> is_negative y)
      else if is_zero x \<or> is_zero y then signed_zero (is_negative x \<noteq> is_negative y)
      else of_exact (finite_value x * finite_value y))"

definition ddiv :: "double \<Rightarrow> double \<Rightarrow> double" where
  "ddiv x y =
     (if x = NaN \<or> y = NaN then NaN
      else if (is_infinite x \<and> is_infinite y) \<or> (is_zero x \<and> is_zero y) then NaN
      else if is_infinite x \<or> is_zero y then signed_infinity (is_negative x \<noteq> is_negative y)
      else if is_infinite y \<or> is_zero x then signed_zero (is_negative x \<noteq> is_negative y)
      else of_exact (finite_value x / finite_value y))"

text \<open>The comparison \<open>x < y\<close> and the strict inequality \<open>x !== y\<close> of two numbers.\<close>

fun order_key :: "double \<Rightarrow> int \<times> rat" where
  "order_key (Num q) = (0, q)"
| "order_key NegZero = (0, 0)"
| "order_key PosInf = (1, 0)"
| "order_key NegInf = (- 1, 0)"
| "order_key NaN = (0, 0)"

definition dless :: "double \<Rightarrow> double \<Rightarrow> bool" where
  "dless x y =
     (x \<noteq> NaN \<and> y \<noteq> NaN
      \<and> (fst (order_key x) < fst (order_key y)
         \<or> (fst (order_key x) = fst (order_key y) \<and> snd (order_key x) < snd (order_key y))))"

definition strict_unequal :: "double \<Rightarrow> double \<Rightarrow> bool" where
  "strict_unequal x y = (x = NaN \<or> y = NaN \<or> order_key x \<noteq> order_key y)"

text \<open>Truthiness of a number and of an optional number.\<close>

definition truthy_number :: "double \<Rightarrow> bool" where
  "truthy_number d = (d \<noteq> NaN \<and> \<not> is_zero d)"

definition truthy_num :: "double option \<Rightarrow> bool" where
  "truthy_num v = (case v of None \<Rightarrow> False | Some d \<Rightarrow> truthy_number d)"

text \<open>
  \<open>ToNumber\<close> of the result of a property read that holds a number or an inherited member,
  and of an optional number: a function, an object that is not a wrapper, and \<open>undefined\<close>
  convert to \<open>NaN\<close>.
\<close>

fun to_number :: "double lookup \<Rightarrow> double" where
  "to_number (Own d) = d"
| "to_number (Inherited k) = NaN"

definition to_number_opt :: "double option \<Rightarrow> double" where
  "to_number_opt v = (case v of None \<Rightarrow> NaN | Some d \<Rightarrow> d)"

text \<open>
  \<open>Number.prototype.toString\<close> for a double \<open>x\<close> of value at least \<open>10^21\<close>, which is an
  integer. The standard takes integers \<open>n\<close>, \<open>k\<close> and \<open>s\<close> with \<open>s\<close> of \<open>k\<close> digits and
  \<open>s \<times> 10^(n-k)\<close> rounding to \<open>x\<close>, with \<open>k\<close> as small as possible and then \<open>s \<times> 10^(n-k)\<close>
  as close to \<open>x\<close> as possible (\<open>s\<close> even when two are equally close), and writes the first
  digit of \<open>s\<close>, a point and the other digits if there are any, and \<open>e+\<close> with \<open>n - 1\<close>.
  With \<open>d\<close> the number of digits of \<open>x\<close>, the search runs over the multiples of \<open>10^j\<close> next to
  \<open>x\<close> for \<open>j\<close> from \<open>d - 1\<close> downwards; the multiple above may be \<open>10^d\<close>, which has one digit
  more than \<open>x\<close>.
\<close>

definition rounds_to :: "rat \<Rightarrow> rat \<Rightarrow> bool" where
  "rounds_to v x = (of_exact v = Num x)"

fun shortest_digits :: "rat \<Rightarrow> nat \<Rightarrow> int \<times> nat" where
  "shortest_digits x 0 = (\<lfloor>x\<rfloor>, 0)"
| "shortest_digits x (Suc j) =
     (let p = 10 ^ Suc j;
          lo = \<lfloor>x / p\<rfloor>;
          hi = lo + 1;
          fit_lo = rounds_to (of_int lo * p) x;
          fit_hi = rounds_to (of_int hi * p) x;
          d_lo = x - of_int lo * p;
          d_hi = of_int hi * p - x
      in if fit_lo \<and> fit_hi
         then (if d_lo < d_hi \<or> (d_lo = d_hi \<and> even lo) then (lo, Suc j) else (hi, Suc j))
         else if fit_lo then (lo, Suc j)
         else if fit_hi then (hi, Suc j)
         else shortest_digits x j)"

text \<open>The digits of \<open>s\<close> without the zeros at the end, which the exponent takes up.\<close>

definition strip_zeros :: "string \<Rightarrow> string" where
  "strip_zeros ds = rev (dropWhile (\<lambda>c. c = CHR ''0'') (rev ds))"

definition to_string_large :: "rat \<Rightarrow> string" where
  "to_string_large x =
     (let (s, j) = shortest_digits x (length (decimal (nat \<lfloor>x\<rfloor>)) - 1);
          ds = decimal (nat s);
          n = length ds + j
      in (case strip_zeros ds of
            [] \<Rightarrow> []
          | d # rest \<Rightarrow> d # (if rest = [] then [] else CHR ''.'' # rest))
         @ ''e+'' @ decimal (n - 1))"

text \<open>
  \<open>Number.prototype.toFixed(1)\<close>. For a finite value below \<open>10^21\<close> in magnitude the digits
  are those of the integer \<open>n\<close> nearest to ten times the magnitude, the larger of two equally
  near, with the point before the last digit.
\<close>

definition fixed_digits :: "nat \<Rightarrow> string" where
  "fixed_digits n =
     (let m = decimal n; m' = (if length m < 2 then CHR ''0'' # m else m)
      in butlast m' @ [CHR ''.'', last m'])"

fun toFixed1 :: "double \<Rightarrow> string" where
  "toFixed1 NaN = ''NaN''"
| "toFixed1 PosInf = ''Infinity''"
| "toFixed1 NegInf = ''-Infinity''"
| "toFixed1 NegZero = ''0.0''"
| "toFixed1 (Num q) =
     (if q < 0 then ''-'' else [])
     @ (if 10 ^ 21 \<le> \<bar>q\<bar> then to_string_large \<bar>q\<bar>
        else fixed_digits (nat \<lfloor>10 * \<bar>q\<bar> + 1 / 2\<rfloor>))"

subsection \<open>Sets and sorting of the runtime\<close>

text \<open>
  A JavaScript \<open>Set\<close> keeps its elements in insertion order and ignores an element it
  already has; \<open>Array.from\<close> lists them in that order.
\<close>

definition set_add :: "'a list \<Rightarrow> 'a \<Rightarrow> 'a list" where
  "set_add s x = (if x \<in> set s then s else s @ [x])"

text \<open>
  \<open>Array.prototype.sort(cmp)\<close> takes a comparator result that is \<open>NaN\<close> for \<open>+0\<close>. The sort is
  stable, and for a consistent comparator its result is the stable sorted arrangement,
  whichever algorithm the engine runs; for a comparator that is not consistent the standard
  leaves the arrangement to the engine. The embedding is the stable insertion sort: an
  element goes before the first element against which the comparator is not positive.
\<close>

definition sort_compare :: "('a \<Rightarrow> 'a \<Rightarrow> double) \<Rightarrow> 'a \<Rightarrow> 'a \<Rightarrow> double" where
  "sort_compare cmp x y = (let v = cmp x y in if v = NaN then Num 0 else v)"

fun insert_by :: "('a \<Rightarrow> 'a \<Rightarrow> double) \<Rightarrow> 'a \<Rightarrow> 'a list \<Rightarrow> 'a list" where
  "insert_by cmp x [] = [x]"
| "insert_by cmp x (y # ys) =
     (if dless (Num 0) (sort_compare cmp x y) then y # insert_by cmp x ys else x # y # ys)"

definition array_sort :: "('a \<Rightarrow> 'a \<Rightarrow> double) \<Rightarrow> 'a list \<Rightarrow> 'a list" where
  "array_sort cmp xs = foldr (insert_by cmp) xs []"

subsection \<open>Analysis history page: selecting analyses for comparison\<close>

text \<open>
  \<^verbatim>\<open>
  const toggleAnalysisSelection = (analysisId) => {
    if (selectedAnalyses.includes(analysisId)) {
      setSelectedAnalyses(selectedAnalyses.filter(id => id !== analysisId));
    } else {
      if (selectedAnalyses.length < 2) {
        setSelectedAnalyses([...selectedAnalyses, analysisId]);
      } else {
        setSelectedAnalyses([selectedAnalyses[1], analysisId]);
      }
    }
  };
  const handleCompare = () => {
    if (selectedAnalyses.length === 2) {
      navigate(`/analysis/compare?ids=${selectedAnalyses.join(',')}`);
    }
  };
  \<close>
  The state \<open>selectedAnalyses\<close> starts as \<open>[]\<close>; the function returns the next state.
  In the last branch the list has at least two elements, so index 1 exists.
\<close>

definition toggleAnalysisSelection :: "string list \<Rightarrow> string \<Rightarrow> string list" where
  "toggleAnalysisSelection selectedAnalyses analysisId =
     (if array_includes selectedAnalyses analysisId
      then filter (\<lambda>i. i \<noteq> analysisId) selectedAnalyses
      else if length selectedAnalyses < 2
      then selectedAnalyses @ [analysisId]
      else [selectedAnalyses ! 1, analysisId])"

text \<open>\<open>handleCompare\<close>: the route navigated to, or \<open>None\<close> when nothing happens.\<close>

definition handleCompare :: "string list \<Rightarrow> string option" where
  "handleCompare selectedAnalyses =
     (if length selectedAnalyses = 2
      then Some (''/analysis/compare?ids='' @ join '','' selectedAnalyses)
      else None)"

text \<open>The selection after a sequence of clicks, starting from the initial state.\<close>

definition selection_after :: "string list \<Rightarrow> string list" where
  "selection_after clicks = foldl toggleAnalysisSelection [] clicks"

subsection \<open>Analysis result documents\<close>

text \<open>
  The fields of an analysis result document that the pages read. A field that may be
  missing is an option. \<open>created_at\<close> is the date string of the document.
\<close>

record code_results =
  language_distribution :: "double jsobject option"
  file_summaries :: "string jsobject option"

record analysis =
  code :: "code_results option"
  file_count :: "double option"
  created_at :: "string option"

text \<open>\<^verbatim>\<open>analysis.code?.language_distribution?.[language]\<close>\<close>

definition lang_count :: "analysis \<Rightarrow> string \<Rightarrow> double lookup option" where
  "lang_count a l =
     (case code a of None \<Rightarrow> None
      | Some c \<Rightarrow> (case language_distribution c of None \<Rightarrow> None | Some d \<Rightarrow> get_prop d l))"

text \<open>\<^verbatim>\<open>analysis.code?.file_summaries?.[file]\<close>\<close>

definition summary_of :: "analysis \<Rightarrow> string \<Rightarrow> string lookup option" where
  "summary_of a f =
     (case code a of None \<Rightarrow> None
      | Some c \<Rightarrow> (case file_summaries c of None \<Rightarrow> None | Some d \<Rightarrow> get_prop d f))"

text \<open>\<^verbatim>\<open>Object.keys(analysis.code?.file_summaries || {})\<close>\<close>

definition file_keys :: "analysis \<Rightarrow> string list" where
  "file_keys a =
     (case code a of None \<Rightarrow> []
      | Some c \<Rightarrow> (case file_summaries c of None \<Rightarrow> [] | Some d \<Rightarrow> object_keys d))"

text \<open>The keys of \<open>analysis.code.language_distribution\<close>, none when a level is missing.\<close>

definition language_keys :: "analysis \<Rightarrow> string list" where
  "language_keys a =
     (case code a of None \<Rightarrow> []
      | Some c \<Rightarrow> (case language_distribution c of None \<Rightarrow> [] | Some d \<Rightarrow> object_keys d))"

subsection \<open>Comparison page: language comparison\<close>

text \<open>
  \<^verbatim>\<open>
  const compareLanguages = () => {
    if (analyses.length !== 2) return [];
    const languages = new Set();
    analyses.forEach(analysis => {
      if (analysis.code?.language_distribution) {
        Object.keys(analysis.code.language_distribution).forEach(lang => {
          languages.add(lang);
        });
      }
    });
    return Array.from(languages).map(language => {
      const counts = analyses.map(analysis =>
        analysis.code?.language_distribution?.[language] || 0
      );
      const percentages = analyses.map(analysis => {
        if (!analysis.code?.language_distribution?.[language] || !analysis.file_count) return 0;
        return ((analysis.code.language_distribution[language] / analysis.file_count) * 100).toFixed(1);
      });
      const diff = counts[1] - counts[0];
      return { language, counts, percentages, diff };
    }).sort((a, b) => {
      // Sort by absolute difference, then by first analysis count
      const absDiffA = Math.abs(a.diff);
      const absDiffB = Math.abs(b.diff);
      if (absDiffA !== absDiffB) return absDiffB - absDiffA;
      return b.counts[0] - a.counts[0];
    });
  };
  \<close>
  An element of \<open>counts\<close> is what the property read gave when that is truthy (a number, or an
  inherited member) and the number 0 otherwise. A percentage is the number 0 or the string
  that \<open>toFixed(1)\<close> returns.
\<close>

datatype percentage = Num0 | Fixed string

record language_entry =
  language :: string
  counts :: "double lookup list"
  percentages :: "percentage list"
  diff :: double

text \<open>\<^verbatim>\<open>v || 0\<close> on the result of a property read.\<close>

definition or_zero :: "double lookup option \<Rightarrow> double lookup" where
  "or_zero v = (if truthy_lookup truthy_number v then the v else Own (Num 0))"

definition collect_languages :: "analysis list \<Rightarrow> string list" where
  "collect_languages analyses =
     foldl (\<lambda>languages a.
              case code a of None \<Rightarrow> languages
              | Some c \<Rightarrow> (case language_distribution c of None \<Rightarrow> languages
                           | Some d \<Rightarrow> foldl set_add languages (object_keys d)))
           [] analyses"

definition percentage_of :: "analysis \<Rightarrow> string \<Rightarrow> percentage" where
  "percentage_of a l =
     (if \<not> truthy_lookup truthy_number (lang_count a l) \<or> \<not> truthy_num (file_count a) then Num0
      else Fixed (toFixed1 (dmul (ddiv (to_number (the (lang_count a l))) (the (file_count a)))
                                 (Num 100))))"

definition language_entry_of :: "analysis list \<Rightarrow> string \<Rightarrow> language_entry" where
  "language_entry_of analyses l =
     (let cs = map (\<lambda>a. or_zero (lang_count a l)) analyses;
          ps = map (\<lambda>a. percentage_of a l) analyses
      in \<lparr> language = l, counts = cs, percentages = ps,
           diff = dsub (to_number (cs ! 1)) (to_number (cs ! 0)) \<rparr>)"

definition compare_entries :: "language_entry \<Rightarrow> language_entry \<Rightarrow> double" where
  "compare_entries a b =
     (let absDiffA = dabs (diff a); absDiffB = dabs (diff b)
      in if strict_unequal absDiffA absDiffB then dsub absDiffB absDiffA
         else dsub (to_number (counts b ! 0)) (to_number (counts a ! 0)))"

definition compareLanguages :: "analysis list \<Rightarrow> language_entry list" where
  "compareLanguages analyses =
     (if length analyses \<noteq> 2 then []
      else array_sort compare_entries
             (map (language_entry_of analyses) (collect_languages analyses)))"

subsection \<open>Comparison page: file lists\<close>

text \<open>
  \<^verbatim>\<open>
  {/* Compare files present in both analyses */}
  Object.keys(analyses[0].code?.file_summaries || {})
    .filter(file => analyses[1].code?.file_summaries?.[file]).slice(0, 5)
  {/* Files only in the newer analysis */}
  Object.keys(analyses[1].code?.file_summaries || {})
    .filter(file => !analyses[0].code?.file_summaries?.[file]).slice(0, 6)
  {/* Files only in the older analysis */}
  Object.keys(analyses[0].code?.file_summaries || {})
    .filter(file => !analyses[1].code?.file_summaries?.[file]).slice(0, 6)
  \<close>
  The page reaches these expressions only with exactly two analyses, \<open>a0\<close> and \<open>a1\<close>. The
  filters test what the property read gives for truthiness; a summary is a string.
\<close>

definition common_files :: "analysis \<Rightarrow> analysis \<Rightarrow> string list" where
  "common_files a0 a1 =
     filter (\<lambda>file. truthy_lookup truthy_string (summary_of a1 file)) (file_keys a0)"

definition new_files :: "analysis \<Rightarrow> analysis \<Rightarrow> string list" where
  "new_files a0 a1 =
     filter (\<lambda>file. \<not> truthy_lookup truthy_string (summary_of a0 file)) (file_keys a1)"

definition removed_files :: "analysis \<Rightarrow> analysis \<Rightarrow> string list" where
  "removed_files a0 a1 =
     filter (\<lambda>file. \<not> truthy_lookup truthy_string (summary_of a1 file)) (file_keys a0)"

definition common_files_shown :: "analysis \<Rightarrow> analysis \<Rightarrow> string list" where
  "common_files_shown a0 a1 = slice0 5 (common_files a0 a1)"

definition new_files_shown :: "analysis \<Rightarrow> analysis \<Rightarrow> string list" where
  "new_files_shown a0 a1 = slice0 6 (new_files a0 a1)"

definition removed_files_shown :: "analysis \<Rightarrow> analysis \<Rightarrow> string list" where
  "removed_files_shown a0 a1 = slice0 6 (removed_files a0 a1)"

subsection \<open>Results page: language breakdown\<close>

text \<open>
  \<^verbatim>\<open>
  {results.code && results.code.language_distribution ? (
    ...
      {Object.entries(results.code.language_distribution).map(([language, count]) => {
        const percentage = ((count / results.file_count) * 100).toFixed(1);
        return ( ... {language} ... {count} files ({percentage}%) ... );
      })}
  ) : ( <p>No language data available</p> )}
  \<close>
  The result is the list of languages with the percentage shown for each, \<open>None\<close> when the
  page shows that there is no language data.
\<close>

definition results_percentages :: "analysis \<Rightarrow> (string \<times> string) list option" where
  "results_percentages results =
     (case code results of
        None \<Rightarrow> None
      | Some c \<Rightarrow>
          (case language_distribution c of
             None \<Rightarrow> None
           | Some d \<Rightarrow>
               Some (map (\<lambda>(l, n). (l, toFixed1 (dmul (ddiv n (to_number_opt (file_count results)))
                                                     (Num 100))))
                         d)))"

subsection \<open>Language distribution chart\<close>

text \<open>
  \<^verbatim>\<open>
  const getLanguageColor = (language) => {
    return LANGUAGE_COLORS[language] || LANGUAGE_COLORS.Other;
  };
  const LanguageDistributionChart = ({ languageDistribution }) => {
    if (!languageDistribution || Object.keys(languageDistribution).length === 0) {
      return (... No language data available ...);
    }
    const chartData = Object.entries(languageDistribution).map(([language, count]) => ({
      name: language, value: count, color: getLanguageColor(language) }));
    // Sort data by value (descending)
    chartData.sort((a, b) => b.value - a.value);
    // Calculate total files
    const totalFiles = chartData.reduce((acc, item) => acc + item.value, 0);
    const CustomTooltip = ({ active, payload }) => {
      if (active && payload && payload.length) {
        const data = payload[0].payload;
        const percentage = ((data.value / totalFiles) * 100).toFixed(1);
        return (... {data.value} files ({percentage}%) ...);
      }
      return null;
    };
    ...
      {chartData[0]?.name || 'None'}
      {chartData[0] ? ((chartData[0].value / totalFiles) * 100).toFixed(1) + '%' : '0%'}
  };
  \<close>
\<close>

definition LANGUAGE_COLORS :: "string jsobject" where
  "LANGUAGE_COLORS =
     [(''JavaScript'', ''#f7df1e''), (''TypeScript'', ''#3178c6''), (''Python'', ''#3572A5''),
      (''Java'', ''#b07219''), (''C#'', ''#178600''), (''C++'', ''#f34b7d''), (''C'', ''#555555''),
      (''Go'', ''#00ADD8''), (''Ruby'', ''#701516''), (''PHP'', ''#4F5D95''), (''Swift'', ''#ffac45''),
      (''Kotlin'', ''#A97BFF''), (''Rust'', ''#dea584''), (''Scala'', ''#c22d40''),
      (''HTML'', ''#e34c26''), (''CSS'', ''#563d7c''), (''Shell'', ''#89e051''),
      (''Other'', ''#cccccc'')]"

definition getLanguageColor :: "string \<Rightarrow> string lookup" where
  "getLanguageColor l =
     (if truthy_lookup truthy_string (get_prop LANGUAGE_COLORS l) then the (get_prop LANGUAGE_COLORS l)
      else the (get_prop LANGUAGE_COLORS ''Other''))"

record chart_item =
  item_name :: string
  item_value :: double
  item_color :: "string lookup"

definition chartData :: "double jsobject \<Rightarrow> chart_item list" where
  "chartData languageDistribution =
     array_sort (\<lambda>a b. dsub (item_value b) (item_value a))
       (map (\<lambda>(l, n). \<lparr> item_name = l, item_value = n, item_color = getLanguageColor l \<rparr>)
            languageDistribution)"

definition totalFiles :: "chart_item list \<Rightarrow> double" where
  "totalFiles items = foldl (\<lambda>acc item. dadd acc (item_value item)) (Num 0) items"

text \<open>
  The tooltip of the hovered slice: \<open>payload\<close> is the list of payload entries the chart
  library passes (\<open>None\<close> when it passes none), each entry holding its data item. The result is
  the percentage shown, \<open>None\<close> when the tooltip renders nothing.
\<close>

definition CustomTooltip :: "double \<Rightarrow> bool \<Rightarrow> chart_item list option \<Rightarrow> string option" where
  "CustomTooltip total_files active payload =
     (case payload of
        Some (d # ds) \<Rightarrow>
          if active then Some (toFixed1 (dmul (ddiv (item_value d) total_files) (Num 100)))
          else None
      | _ \<Rightarrow> None)"

text \<open>
  What the component shows under the pie: the sorted data, the total, the primary language
  and its percentage. The component itself is \<open>None\<close> when it renders the placeholder.
\<close>

record chart_view =
  view_data :: "chart_item list"
  view_total :: double
  view_primary :: string
  view_primary_pct :: string

definition LanguageDistributionChart :: "double jsobject option \<Rightarrow> chart_view option" where
  "LanguageDistributionChart languageDistribution =
     (case languageDistribution of
        None \<Rightarrow> None
      | Some d \<Rightarrow>
          if length (object_keys d) = 0 then None
          else
            let items = chartData d; total_files = totalFiles items in
            Some \<lparr> view_data = items, view_total = total_files,
                   view_primary = (case items of [] \<Rightarrow> ''None''
                                   | x # xs \<Rightarrow> if item_name x \<noteq> [] then item_name x else ''None''),
                   view_primary_pct =
                     (case items of [] \<Rightarrow> ''0%''
                      | x # xs \<Rightarrow>
                          toFixed1 (dmul (ddiv (item_value x) total_files) (Num 100)) @ ''%'') \<rparr>)"

subsection \<open>Status display\<close>

text \<open>
  \<^verbatim>\<open>
  const statusMap = {
    pending: { color: '#F59E0B', label: 'Pending' },
    running: { color: '#3B82F6', label: 'Running' },
    analyzing_code: { color: '#3B82F6', label: 'Analyzing Code' },
    analyzing_dependencies: { color: '#3B82F6', label: 'Analyzing Dependencies' },
    analyzing_business: { color: '#3B82F6', label: 'Analyzing Business Logic' },
    analyzing_architecture: { color: '#3B82F6', label: 'Analyzing Architecture' },
    completed: { color: '#10B981', label: 'Completed' },
    failed: { color: '#EF4444', label: 'Failed' }
  };
  const getStatusInfo = (status) => {
    return statusMap[status] || { color: '#6B7280', label: 'Unknown' };
  };
  const { color, label } = getStatusInfo(analysisStatus.status);
  \<close>
  Whatever the property read finds is an object or a function, hence truthy: the fallback
  is taken exactly when the read is \<open>undefined\<close>. The members of \<open>Object.prototype\<close> have
  no property \<open>color\<close> or \<open>label\<close>: destructuring one of them gives \<open>undefined\<close> twice.
\<close>

record status_info =
  color :: string
  label :: string

definition statusMap :: "status_info jsobject" where
  "statusMap =
     [(''pending'', \<lparr> color = ''#F59E0B'', label = ''Pending'' \<rparr>),
      (''running'', \<lparr> color = ''#3B82F6'', label = ''Running'' \<rparr>),
      (''analyzing_code'', \<lparr> color = ''#3B82F6'', label = ''Analyzing Code'' \<rparr>),
      (''analyzing_dependencies'', \<lparr> color = ''#3B82F6'', label = ''Analyzing Dependencies'' \<rparr>),
      (''analyzing_business'', \<lparr> color = ''#3B82F6'', label = ''Analyzing Business Logic'' \<rparr>),
      (''analyzing_architecture'', \<lparr> color = ''#3B82F6'', label = ''Analyzing Architecture'' \<rparr>),
      (''completed'', \<lparr> color = ''#10B981'', label = ''Completed'' \<rparr>),
      (''failed'', \<lparr> color = ''#EF4444'', label = ''Failed'' \<rparr>)]"

definition getStatusInfo :: "string \<Rightarrow> status_info lookup" where
  "getStatusInfo status =
     (case get_prop statusMap status of
        Some found \<Rightarrow> found
      | None \<Rightarrow> Own \<lparr> color = ''#6B7280'', label = ''Unknown'' \<rparr>)"

text \<open>The two names bound by the destructuring, \<open>None\<close> for \<open>undefined\<close>.\<close>

fun color_of :: "status_info lookup \<Rightarrow> string option" where
  "color_of (Own info) = Some (color info)"
| "color_of (Inherited k) = None"

fun label_of :: "status_info lookup \<Rightarrow> string option" where
  "label_of (Own info) = Some (label info)"
| "label_of (Inherited k) = None"

subsection \<open>Example documents\<close>

definition doc_before :: analysis where
  "doc_before =
     \<lparr> code = Some \<lparr> language_distribution = Some [(''Python'', Num 10), (''Go'', Num 3)],
                      file_summaries = Some [(''main.py'', ''entry point''), (''util.go'', ''helpers'')] \<rparr>,
       file_count = Some (Num 13), created_at = Some ''2024-01-01T00:00:00Z'' \<rparr>"

definition doc_after :: analysis where
  "doc_after =
     \<lparr> code = Some \<lparr> language_distribution = Some [(''Python'', Num 4), (''Rust'', Num 2), (''Go'', Num 5)],
                      file_summaries = Some [(''main.py'', ''entry point, reworked''), (''lib.rs'', ''core'')] \<rparr>,
       file_count = Some (Num 11), created_at = Some ''2024-01-03T05:00:00Z'' \<rparr>"

text \<open>A document whose only file has the empty string as its summary.\<close>

definition doc_empty_summary :: analysis where
  "doc_empty_summary =
     \<lparr> code = Some \<lparr> language_distribution = None, file_summaries = Some [(''a.js'', [])] \<rparr>,
       file_count = Some (Num 1), created_at = None \<rparr>"

text \<open>
  A document without files and one whose only file is named \<open>valueOf\<close>, as a member of
  \<open>Object.prototype\<close> is.
\<close>

definition doc_no_files :: analysis where
  "doc_no_files =
     \<lparr> code = Some \<lparr> language_distribution = None, file_summaries = Some [] \<rparr>,
       file_count = Some (Num 0), created_at = None \<rparr>"

definition doc_valueOf_file :: analysis where
  "doc_valueOf_file =
     \<lparr> code = Some \<lparr> language_distribution = None,
                      file_summaries = Some [(''valueOf'', ''a module'')] \<rparr>,
       file_count = Some (Num 1), created_at = None \<rparr>"

text \<open>
  Documents that list only a language distribution: \<open>{A: 1, constructor: 3, B: 5}\<close> and
  \<open>{A: 2, B: 10}\<close>; \<open>{constructor: 3}\<close> and \<open>{Go: 1}\<close>.
\<close>

definition languages_only :: "double jsobject \<Rightarrow> double option \<Rightarrow> analysis" where
  "languages_only d n =
     \<lparr> code = Some \<lparr> language_distribution = Some d, file_summaries = None \<rparr>,
       file_count = n, created_at = None \<rparr>"

definition doc_a1 :: analysis where
  "doc_a1 = languages_only [(''A'', Num 1), (''constructor'', Num 3), (''B'', Num 5)] None"

definition doc_a2 :: analysis where
  "doc_a2 = languages_only [(''A'', Num 2), (''B'', Num 10)] None"

definition doc_c1 :: analysis where
  "doc_c1 = languages_only [(''constructor'', Num 3)] (Some (Num 3))"

definition doc_c2 :: analysis where
  "doc_c2 = languages_only [(''Go'', Num 1)] (Some (Num 1))"

text \<open>A document with three Python files whose \<open>file_count\<close> is 0, and one without \<open>file_count\<close>.\<close>

definition doc_zero_count :: analysis where
  "doc_zero_count = languages_only [(''Python'', Num 3)] (Some (Num 0))"

definition doc_no_count :: analysis where
  "doc_no_count = languages_only [(''Python'', Num 3)] None"

subsection \<open>Comparison page: the \<open>ids\<close> parameter and the fetch\<close>

text \<open>\<open>String.prototype.split\<close> with a one-character separator: one piece more than separators.\<close>

fun split_on :: "char \<Rightarrow> string \<Rightarrow> string list" where
  "split_on sep [] = [[]]"
| "split_on sep (c # cs) =
     (if c = sep then [] # split_on sep cs
      else (case split_on sep cs of [] \<Rightarrow> [[c]] | w # ws \<Rightarrow> (c # w) # ws))"

text \<open>
  \<^verbatim>\<open>const analysisIds = searchParams.get('ids')?.split(',') || [];\<close>
  The argument is the value of the query parameter, \<open>None\<close> when the URL has none.
\<close>

definition analysisIds :: "string option \<Rightarrow> string list" where
  "analysisIds ids = (case ids of None \<Rightarrow> [] | Some s \<Rightarrow> split_on CHR '','' s)"

text \<open>
  \<^verbatim>\<open>
  const fetchAnalyses = async () => {
    if (analysisIds.length !== 2) {
      setError(new Error('Please select two analyses to compare'));
      setLoading(false);
      return;
    }
    try {
      setLoading(true);
      const results = await Promise.all(
        analysisIds.map(id => apiService.analysis.getAnalysisResults(id)));
      setAnalyses(results.map(result => result.data));
      setError(null);
    } catch (err) {
      setError(err);
    } finally {
      setLoading(false);
    }
  };
  \<close>
  The page state (\<open>analyses\<close>, \<open>loading\<close>, \<open>error\<close>) is a record. The backend is a
  parameter: for an id, the moment at which the results request settles and its outcome, the
  document or an error message. The function returns the ids for which results were
  requested, and the next state. \<open>Promise.all\<close> rejects with the rejection that settles
  first in time (the earlier in the list of two that settle at the same moment), and
  fulfils with the values in list order when no request is rejected.
\<close>

record compare_state =
  st_analyses :: "analysis list"
  st_loading :: bool
  st_error :: "string option"

definition initial_compare_state :: compare_state where
  "initial_compare_state = \<lparr> st_analyses = [], st_loading = True, st_error = None \<rparr>"

fun first_rejection :: "(nat \<times> (string + 'a)) list \<Rightarrow> (nat \<times> string) option" where
  "first_rejection [] = None"
| "first_rejection ((t, Inr v) # rs) = first_rejection rs"
| "first_rejection ((t, Inl e) # rs) =
     (case first_rejection rs of
        None \<Rightarrow> Some (t, e)
      | Some (t', e') \<Rightarrow> if t' < t then Some (t', e') else Some (t, e))"

fun fulfilled :: "(nat \<times> (string + 'a)) list \<Rightarrow> 'a list" where
  "fulfilled [] = []"
| "fulfilled ((t, Inl e) # rs) = fulfilled rs"
| "fulfilled ((t, Inr v) # rs) = v # fulfilled rs"

definition fetchAnalyses ::
  "(string \<Rightarrow> nat \<times> (string + analysis)) \<Rightarrow> string list \<Rightarrow> compare_state
     \<Rightarrow> string list \<times> compare_state" where
  "fetchAnalyses getAnalysisResults ids st =
     (if length ids \<noteq> 2
      then ([], st\<lparr> st_error := Some ''Please select two analyses to compare'', st_loading := False \<rparr>)
      else
        let results = map getAnalysisResults ids in
        (ids,
         case first_rejection results of
           Some (t, err) \<Rightarrow> st\<lparr> st_error := Some err, st_loading := False \<rparr>
         | None \<Rightarrow> st\<lparr> st_analyses := fulfilled results, st_error := None, st_loading := False \<rparr>))"

subsection \<open>Comparison page: age difference\<close>

text \<open>
  \<^verbatim>\<open>
  const getAgeDifference = () => {
    if (analyses.length !== 2) return null;
    const date1 = new Date(analyses[0].created_at);
    const date2 = new Date(analyses[1].created_at);
    const diffTime = Math.abs(date2 - date1);
    const diffDays = Math.floor(diffTime / (1000 * 60 * 60 * 24));
    const diffHours = Math.floor((diffTime % (1000 * 60 * 60 * 24)) / (1000 * 60 * 60));
    if (diffDays > 0) {
      return `${diffDays} day${diffDays !== 1 ? 's' : ''} ${diffHours} hour${diffHours !== 1 ? 's' : ''}`;
    } else {
      return `${diffHours} hour${diffHours !== 1 ? 's' : ''}`;
    }
  };
  \<close>
  Parsing a date is the runtime's: \<open>date_ms\<close> gives the time value in milliseconds of
  \<open>new Date(x)\<close>, \<open>None\<close> for an invalid date (whose time value is \<open>NaN\<close>). With \<open>NaN\<close> every
  comparison is false and the text is \<open>NaN hours\<close>.
\<close>

definition plural :: "int \<Rightarrow> string" where
  "plural n = (if n \<noteq> 1 then ''s'' else [])"

definition age_text :: "int option \<Rightarrow> int option \<Rightarrow> string" where
  "age_text date1 date2 =
     (case (date1, date2) of
        (Some t1, Some t2) \<Rightarrow>
          let diffTime = \<bar>t2 - t1\<bar>;
              diffDays = diffTime div (1000 * 60 * 60 * 24);
              diffHours = (diffTime mod (1000 * 60 * 60 * 24)) div (1000 * 60 * 60)
          in if diffDays > 0
             then decimal (nat diffDays) @ '' day'' @ plural diffDays @ '' ''
                  @ decimal (nat diffHours) @ '' hour'' @ plural diffHours
             else decimal (nat diffHours) @ '' hour'' @ plural diffHours
      | _ \<Rightarrow> ''NaN hours'')"

definition getAgeDifference :: "(string option \<Rightarrow> int option) \<Rightarrow> analysis list \<Rightarrow> string option" where
  "getAgeDifference date_ms analyses_list =
     (if length analyses_list \<noteq> 2 then None
      else Some (age_text (date_ms (created_at (analyses_list ! 0)))
                          (date_ms (created_at (analyses_list ! 1)))))"

subsection \<open>API gateway: the route to the source-code service\<close>

text \<open>
  \<^verbatim>\<open>
  // app.ts
  app.use('/health', healthCheckRouter);
  app.use('/api', apiRouter);
  // routes/api.ts
  apiRouter.use('/v1/source-code', sourceCodeRouter);
  // routes/sourceCode.ts
  sourceCodeRouter.all('/*', proxy(config.sourceCodeServiceUrl, {
    proxyReqPathResolver: (req) => {
      return req.url.replace(/^\/api\/v1\/source-code/, '');
    }
  }));
  // config.ts
  sourceCodeServiceUrl: process.env.SOURCE_CODE_SERVICE_URL || 'http://source-code-service:8000',
  \<close>
  A request URL is the path followed by the query string, if any.
\<close>

text \<open>
  \<open>String.prototype.replace\<close> with a regular expression that is a literal anchored at the
  start of the string: the literal is replaced when the string begins with it, and the
  string is returned as it is otherwise.
\<close>

definition replace_leading :: "string \<Rightarrow> string \<Rightarrow> string \<Rightarrow> string" where
  "replace_leading literal replacement s =
     (if take (length literal) s = literal then replacement @ drop (length literal) s else s)"

text \<open>The resolver, as a function of \<open>req.url\<close>.\<close>

definition proxyReqPathResolver :: "string \<Rightarrow> string" where
  "proxyReqPathResolver url = replace_leading ''/api/v1/source-code'' [] url"

text \<open>\<open>loadConfig\<close>, the field \<open>sourceCodeServiceUrl\<close>; the argument is the process environment.\<close>

definition sourceCodeServiceUrl :: "(string \<Rightarrow> string option) \<Rightarrow> string" where
  "sourceCodeServiceUrl env =
     (if truthy_str (env ''SOURCE_CODE_SERVICE_URL'') then the (env ''SOURCE_CODE_SERVICE_URL'')
      else ''http://source-code-service:8000'')"

text \<open>
  Mounting with \<open>use(path, router)\<close> in Express: the router is entered when the path of the
  request begins with the mount path, letters compared without regard to case, and the mount
  path ends there at the end of the path or before a \<open>/\<close>. Inside the router \<open>req.url\<close> is the
  URL without the matched part (which takes in one following \<open>/\<close> when the path ends after
  it or another \<open>/\<close> follows), with a \<open>/\<close> put in front when it does not begin with one. The
  mount paths here are in lower case.
\<close>

definition to_lower :: "char \<Rightarrow> char" where
  "to_lower c =
     (let n = (of_char c :: nat) in if 65 \<le> n \<and> n \<le> 90 then char_of (n + 32) else c)"

definition pathname :: "string \<Rightarrow> string" where
  "pathname url = takeWhile (\<lambda>c. c \<noteq> CHR ''?'') url"

definition use_mount :: "string \<Rightarrow> string \<Rightarrow> string option" where
  "use_mount mount_path url =
     (let rest = drop (length mount_path) (pathname url) in
      if map to_lower (take (length mount_path) (pathname url)) \<noteq> mount_path then None
      else
        case rest of
          [] \<Rightarrow> Some (CHR ''/'' # drop (length mount_path) url)
        | c # cs \<Rightarrow>
            if c \<noteq> CHR ''/'' then None
            else if cs = [] \<or> take 1 cs = ''/''
            then (let u = drop (Suc (length mount_path)) url
                  in Some (if take 1 u = ''/'' then u else CHR ''/'' # u))
            else Some (drop (length mount_path) url))"

text \<open>
  The route \<open>all('/*', handler)\<close> takes every method and every path that begins with \<open>/\<close>,
  and leaves \<open>req.url\<close> as it is. \<open>proxy(host, {proxyReqPathResolver})\<close>, of the package
  \<open>express-http-proxy\<close>, sends the request on to \<open>host\<close> under the path that the resolver
  returns. The gateway is the chain of the two mounts and the route: the host and the path
  of the request sent on, \<open>None\<close> for a URL that does not reach the proxy (the gateway answers
  it itself, with the version information or with \<open>Route not found\<close>). The argument is the
  URL of a request that the middleware in front of the routes (\<open>helmet\<close>, \<open>cors\<close>,
  \<open>compression\<close>, the parsers of \<open>body-parser\<close> and the logger of \<open>morgan\<close>, all of them
  packages) pass on; it begins with \<open>/\<close> and has no fragment. How the packages carry
  method, headers and body is not part of the embedding.
\<close>

record forwarded_request =
  fwd_host :: string
  fwd_path :: string

definition gateway :: "(string \<Rightarrow> string option) \<Rightarrow> string \<Rightarrow> forwarded_request option" where
  "gateway env url =
     (case use_mount ''/api'' url of
        None \<Rightarrow> None
      | Some url_in_api \<Rightarrow>
          (case use_mount ''/v1/source-code'' url_in_api of
             None \<Rightarrow> None
           | Some url_in_router \<Rightarrow>
               Some \<lparr> fwd_host = sourceCodeServiceUrl env,
                      fwd_path = proxyReqPathResolver url_in_router \<rparr>))"

subsection \<open>Web UI: the API client\<close>

text \<open>
  \<^verbatim>\<open>
  const apiClient = axios.create({
    baseURL: import.meta.env.VITE_API_BASE_URL || 'http://localhost:8080/api/v1/source-code',
    timeout: 30000, // 30 seconds
    headers: { 'Content-Type': 'application/json', 'Accept': 'application/json' }
  });
  apiClient.interceptors.request.use(config => { return config; }, ...);
  \<close>
  An axios instance holds defaults. A call through the instance gives method, URL, data and
  optionally a configuration of its own; axios takes from the instance every setting the
  call does not give. The only call of \<open>api.js\<close> that gives a configuration is
  \<open>uploadFiles\<close>, which gives headers.
\<close>

record axios_instance =
  baseURL :: string
  inst_timeout :: nat
  inst_headers :: "(string \<times> string) list"

record call_config =
  call_timeout :: "nat option"
  call_headers :: "(string \<times> string) list"

record request_config =
  cfg_method :: string
  cfg_baseURL :: string
  cfg_url :: string
  cfg_timeout :: nat
  cfg_headers :: "(string \<times> string) list"
  cfg_data :: "string option"

definition apiClient :: "string option \<Rightarrow> axios_instance" where
  "apiClient VITE_API_BASE_URL =
     \<lparr> baseURL = (if truthy_str VITE_API_BASE_URL then the VITE_API_BASE_URL
                   else ''http://localhost:8080/api/v1/source-code''),
       inst_timeout = 30000,
       inst_headers = [(''Content-Type'', ''application/json''), (''Accept'', ''application/json'')] \<rparr>"

definition no_config :: call_config where
  "no_config = \<lparr> call_timeout = None, call_headers = [] \<rparr>"

definition merge_config ::
  "axios_instance \<Rightarrow> string \<Rightarrow> string \<Rightarrow> string option \<Rightarrow> call_config \<Rightarrow> request_config" where
  "merge_config inst m u d c =
     \<lparr> cfg_method = m, cfg_baseURL = baseURL inst, cfg_url = u,
       cfg_timeout = (case call_timeout c of None \<Rightarrow> inst_timeout inst | Some t \<Rightarrow> t),
       cfg_headers = call_headers c
                     @ filter (\<lambda>h. fst h \<notin> set (map fst (call_headers c))) (inst_headers inst),
       cfg_data = d \<rparr>"

text \<open>The request interceptor returns the configuration it is given.\<close>

definition request_interceptor :: "request_config \<Rightarrow> request_config" where
  "request_interceptor config = config"

definition client_request ::
  "string option \<Rightarrow> string \<Rightarrow> string \<Rightarrow> string option \<Rightarrow> call_config \<Rightarrow> request_config" where
  "client_request env m u d c = request_interceptor (merge_config (apiClient env) m u d c)"

text \<open>
  The endpoints of \<open>apiService\<close>: the groups \<open>repository\<close>, \<open>project\<close>, \<open>analysis\<close> and
  \<open>health\<close>. Request data is the serialised body.
\<close>

datatype api_call =
    CloneRepository string
  | GetRepository string
  | ListRepositories
  | DeleteRepository string
  | UploadFiles string
  | GetProject string
  | ListProjects
  | ListProjectFiles string
  | GetFileContent string string
  | DeleteProject string
  | AnalyzeCode string
  | StartAnalysis string string bool
  | GetAnalysisStatus string
  | GetAnalysisResults string
  | GetAnalysisSummary string
  | ListProjectAnalyses string
  | GetLatestAnalysis string "string option"
  | GetProjectAnalysisResults string "string option" "string option"
  | CheckHealth

definition string_of_bool :: "bool \<Rightarrow> string" where
  "string_of_bool b = (if b then ''true'' else ''false'')"

fun api_request :: "string option \<Rightarrow> api_call \<Rightarrow> request_config" where
  "api_request env (CloneRepository d) =
     client_request env ''post'' ''/github/repositories'' (Some d) no_config"
| "api_request env (GetRepository repositoryId) =
     client_request env ''get'' (''/github/repositories/'' @ repositoryId) None no_config"
| "api_request env ListRepositories =
     client_request env ''get'' ''/github/repositories'' None no_config"
| "api_request env (DeleteRepository repositoryId) =
     client_request env ''delete'' (''/github/repositories/'' @ repositoryId) None no_config"
| "api_request env (UploadFiles formData) =
     client_request env ''post'' ''/files/upload'' (Some formData)
       \<lparr> call_timeout = None, call_headers = [(''Content-Type'', ''multipart/form-data'')] \<rparr>"
| "api_request env (GetProject projectId) =
     client_request env ''get'' (''/files/projects/'' @ projectId) None no_config"
| "api_request env ListProjects =
     client_request env ''get'' ''/files/projects'' None no_config"
| "api_request env (ListProjectFiles projectId) =
     client_request env ''get'' (''/files/projects/'' @ projectId @ ''/files'') None no_config"
| "api_request env (GetFileContent projectId filePath) =
     client_request env ''get'' (''/files/projects/'' @ projectId @ ''/files/'' @ filePath) None
       no_config"
| "api_request env (DeleteProject projectId) =
     client_request env ''delete'' (''/files/projects/'' @ projectId) None no_config"
| "api_request env (AnalyzeCode d) =
     client_request env ''post'' ''/analysis/code'' (Some d) no_config"
| "api_request env (StartAnalysis projectId d fromRepository) =
     client_request env ''post''
       (''/analysis/projects/'' @ projectId @ ''/analyze?from_repository=''
        @ string_of_bool fromRepository)
       (Some d) no_config"
| "api_request env (GetAnalysisStatus analysisId) =
     client_request env ''get'' (''/analysis/analysis/'' @ analysisId) None no_config"
| "api_request env (GetAnalysisResults analysisId) =
     client_request env ''get'' (''/analysis/analysis/'' @ analysisId @ ''/results'') None no_config"
| "api_request env (GetAnalysisSummary analysisId) =
     client_request env ''get'' (''/analysis/analysis/'' @ analysisId @ ''/summary'') None no_config"
| "api_request env (ListProjectAnalyses projectId) =
     client_request env ''get'' (''/analysis/projects/'' @ projectId @ ''/analysis'') None no_config"
| "api_request env (GetLatestAnalysis projectId analysisType) =
     client_request env ''get''
       (''/analysis/projects/'' @ projectId @ ''/analysis/latest''
        @ (if truthy_str analysisType then ''?analysis_type='' @ the analysisType else []))
       None no_config"
| "api_request env (GetProjectAnalysisResults projectId analysisId analysisType) =
     (let params = (if truthy_str analysisId then [''analysis_id='' @ the analysisId] else [])
                   @ (if truthy_str analysisType then [''analysis_type='' @ the analysisType] else [])
      in client_request env ''get''
           (''/analysis/projects/'' @ projectId @ ''/analysis/results''
            @ (if length params > 0 then ''?'' @ join ''&'' params else []))
           None no_config)"
| "api_request env CheckHealth = client_request env ''get'' ''/health'' None no_config"

subsection \<open>Polling the analysis status\<close>

text \<open>
  The two loops react to events of the runtime: the interval timer fires (\<open>Tick\<close>), a
  pending status request settles (\<open>Response\<close>, with the data of the answer, or with \<open>None\<close>
  when the request failed), and the owner stops the loop (\<open>Cleanup\<close>: the function that
  \<open>pollAnalysisStatus\<close> returns is called, or the component unmounts). A state records
  whether an interval timer is registered and with which delay, how many status requests are
  pending, and how many have been issued. A cleared timer does not fire, and a response needs
  a pending request: the step functions leave the state as it is on such events.
\<close>

record status_data =
  data_status :: string
  data_progress :: int
  data_error :: "string option"

datatype poll_event = Tick | Response "status_data option" | Cleanup

text \<open>
  \<^verbatim>\<open>
  const pollAnalysisStatus = useCallback((analysisId, interval = 3000, onComplete) => {
    const poll = setInterval(async () => {
      const status = await getAnalysisStatus(analysisId);
      if (status && (status.status === 'completed' || status.status === 'failed')) {
        clearInterval(poll);
        if (onComplete) {
          onComplete(status);
        }
      }
    }, interval);
    return () => clearInterval(poll);
  }, [getAnalysisStatus]);
  \<close>
  \<open>getAnalysisStatus\<close> resolves to the data of the answer, or to \<open>null\<close> when the request
  failed (\<open>callApi\<close> catches the error).
\<close>

record poll_state =
  poll_delay :: nat
  poll_timer :: bool
  poll_pending :: nat
  poll_requests :: nat
  poll_completed :: "string list"

definition pollAnalysisStatus :: "nat option \<Rightarrow> poll_state" where
  "pollAnalysisStatus interval =
     \<lparr> poll_delay = (case interval of None \<Rightarrow> 3000 | Some ms \<Rightarrow> ms),
       poll_timer = True, poll_pending = 0, poll_requests = 0, poll_completed = [] \<rparr>"

fun poll_step :: "poll_state \<Rightarrow> poll_event \<Rightarrow> poll_state" where
  "poll_step st Tick =
     (if poll_timer st
      then st\<lparr> poll_pending := poll_pending st + 1, poll_requests := poll_requests st + 1 \<rparr>
      else st)"
| "poll_step st (Response r) =
     (if poll_pending st = 0 then st
      else
        let st' = st\<lparr> poll_pending := poll_pending st - 1 \<rparr> in
        case r of
          None \<Rightarrow> st'
        | Some d \<Rightarrow>
            if data_status d = ''completed'' \<or> data_status d = ''failed''
            then st'\<lparr> poll_timer := False, poll_completed := poll_completed st' @ [data_status d] \<rparr>
            else st')"
| "poll_step st Cleanup = st\<lparr> poll_timer := False \<rparr>"

definition poll_run :: "poll_state \<Rightarrow> poll_event list \<Rightarrow> poll_state" where
  "poll_run st events = foldl poll_step st events"

text \<open>
  \<^verbatim>\<open>
  const [analysisStatus, setAnalysisStatus] = useState({ status: 'pending', progress: 0, error: null });
  const [loading, setLoading] = useState(true);
  useEffect(() => {
    // Don't poll if analysis is completed or failed
    if (analysisStatus.status === 'completed' || analysisStatus.status === 'failed') {
      if (onComplete) { onComplete(analysisStatus); }
      return;
    }
    const fetchStatus = async () => {
      try {
        const response = await axios.get(`/api/v1/source-code/analysis/analysis/${analysisId}`);
        setAnalysisStatus({ status: response.data.status, progress: response.data.progress,
                            error: response.data.error });
        setLoading(false);
      } catch (error) {
        setAnalysisStatus(prev => ({ ...prev, error: 'Failed to fetch analysis status' }));
        setLoading(false);
      }
    };
    fetchStatus();
    const interval = setInterval(fetchStatus, 5000);
    return () => clearInterval(interval);
  }, [analysisId, analysisStatus.status, onComplete]);
  \<close>
  React runs the effect after mounting and again after a render in which a dependency has
  changed, running the cleanup of the previous run first. \<open>analysisId\<close> and \<open>onComplete\<close> are
  held fixed, so the effect runs again exactly when a response stores a status different
  from the current one. A state update of an unmounted component has no effect.
\<close>

record progress_state =
  ap_status :: string
  ap_progress :: int
  ap_error :: "string option"
  ap_loading :: bool
  ap_mounted :: bool
  ap_timer :: bool
  ap_delay :: nat
  ap_pending :: nat
  ap_requests :: nat
  ap_completed :: "string list"

definition effect :: "progress_state \<Rightarrow> progress_state" where
  "effect st =
     (if ap_status st = ''completed'' \<or> ap_status st = ''failed''
      then st\<lparr> ap_completed := ap_completed st @ [ap_status st] \<rparr>
      else st\<lparr> ap_pending := ap_pending st + 1, ap_requests := ap_requests st + 1,
               ap_timer := True, ap_delay := 5000 \<rparr>)"

definition mount :: progress_state where
  "mount =
     effect \<lparr> ap_status = ''pending'', ap_progress = 0, ap_error = None, ap_loading = True,
              ap_mounted = True, ap_timer = False, ap_delay = 0, ap_pending = 0,
              ap_requests = 0, ap_completed = [] \<rparr>"

fun progress_step :: "progress_state \<Rightarrow> poll_event \<Rightarrow> progress_state" where
  "progress_step st Tick =
     (if ap_timer st
      then st\<lparr> ap_pending := ap_pending st + 1, ap_requests := ap_requests st + 1 \<rparr>
      else st)"
| "progress_step st (Response r) =
     (if ap_pending st = 0 then st
      else
        let st1 = st\<lparr> ap_pending := ap_pending st - 1 \<rparr> in
        if \<not> ap_mounted st then st1
        else
          case r of
            None \<Rightarrow> st1\<lparr> ap_error := Some ''Failed to fetch analysis status'', ap_loading := False \<rparr>
          | Some d \<Rightarrow>
              let st2 = st1\<lparr> ap_status := data_status d, ap_progress := data_progress d,
                              ap_error := data_error d, ap_loading := False \<rparr>
              in if data_status d \<noteq> ap_status st
                 then effect (st2\<lparr> ap_timer := False \<rparr>)
                 else st2)"
| "progress_step st Cleanup = st\<lparr> ap_timer := False, ap_mounted := False \<rparr>"

definition progress_run :: "progress_state \<Rightarrow> poll_event list \<Rightarrow> progress_state" where
  "progress_run st events = foldl progress_step st events"

text \<open>Answers used in the examples.\<close>

definition answer :: "string \<Rightarrow> status_data" where
  "answer s = \<lparr> data_status = s, data_progress = 0, data_error = None \<rparr>"

section \<open>Properties\<close>

subsection \<open>Selection list\<close>

lemma toggle_length_le2:
  "length (toggleAnalysisSelection sel i) \<le> 2 \<or> length (toggleAnalysisSelection sel i) \<le> length sel"
  unfolding toggleAnalysisSelection_def by (simp add: le_imp_less_Suc)

lemma toggle_keeps_bound:
  assumes "length sel \<le> 2"
  shows "length (toggleAnalysisSelection sel i) \<le> 2"
  using toggle_length_le2 [of sel i] assms by linarith

lemma foldl_toggle_bound:
  "length sel \<le> 2 \<Longrightarrow> length (foldl toggleAnalysisSelection sel clicks) \<le> 2"
  by (induction clicks arbitrary: sel) (simp_all add: toggle_keeps_bound)

text \<open>
  Claim C8. The list of analyses selected for comparison has length at most 2 in every
  reachable state, and every toggle preserves the bound. Toggling a selected id removes it;
  toggling a new id appends it when fewer than two are selected; with two selected, the new
  id replaces the older (first) of the two. \<open>handleCompare\<close> navigates exactly when two are
  selected.
\<close>

theorem C8_selection_at_most_two:
  "length (selection_after clicks) \<le> 2
   \<and> (length sel \<le> 2 \<longrightarrow> length (toggleAnalysisSelection sel i) \<le> 2)
   \<and> (i \<in> set sel \<longrightarrow> toggleAnalysisSelection sel i = filter (\<lambda>j. j \<noteq> i) sel
        \<and> i \<notin> set (toggleAnalysisSelection sel i))
   \<and> (i \<notin> set sel \<and> length sel < 2 \<longrightarrow> toggleAnalysisSelection sel i = sel @ [i])
   \<and> (i \<notin> {a, b} \<longrightarrow> toggleAnalysisSelection [a, b] i = [b, i])
   \<and> (handleCompare sel \<noteq> None \<longleftrightarrow> length sel = 2)"
proof -
  have "length (selection_after clicks) \<le> 2"
    unfolding selection_after_def by (rule foldl_toggle_bound) simp
  moreover have "length sel \<le> 2 \<longrightarrow> length (toggleAnalysisSelection sel i) \<le> 2"
    by (simp add: toggle_keeps_bound)
  moreover have "i \<in> set sel \<longrightarrow> toggleAnalysisSelection sel i = filter (\<lambda>j. j \<noteq> i) sel
        \<and> i \<notin> set (toggleAnalysisSelection sel i)"
    by (simp add: toggleAnalysisSelection_def array_includes_def)
  moreover have "i \<notin> set sel \<and> length sel < 2 \<longrightarrow> toggleAnalysisSelection sel i = sel @ [i]"
    by (simp add: toggleAnalysisSelection_def array_includes_def)
  moreover have "i \<notin> {a, b} \<longrightarrow> toggleAnalysisSelection [a, b] i = [b, i]"
    by (simp add: toggleAnalysisSelection_def array_includes_def)
  moreover have "handleCompare sel \<noteq> None \<longleftrightarrow> length sel = 2"
    by (simp add: handleCompare_def)
  ultimately show ?thesis by blast
qed

theorem C8_selection_at_most_two_witness:
  "selection_after [''a1'', ''a2'', ''a3'', ''a2''] = [''a3'']
   \<and> length (selection_after [''a1'', ''a2'', ''a3'', ''a2'']) \<le> 2
   \<and> toggleAnalysisSelection [''a1'', ''a2''] ''a3'' = [''a2'', ''a3'']
   \<and> toggleAnalysisSelection [''a1'', ''a2''] ''a1'' = [''a2'']
   \<and> toggleAnalysisSelection [''a1''] ''a2'' = [''a1'', ''a2'']
   \<and> handleCompare [''a1'', ''a2''] = Some ''/analysis/compare?ids=a1,a2''
   \<and> handleCompare [''a1''] = None"
  using C8_selection_at_most_two [of "[''a1'', ''a2'', ''a3'', ''a2'']" "[''a1'', ''a2'']" "''a3''" "''a1''" "''a2''"]
  by (simp add: selection_after_def toggleAnalysisSelection_def array_includes_def handleCompare_def)

subsection \<open>Numbers\<close>

text \<open>
  Integers below \<open>2^53\<close> in magnitude are doubles, and the difference and the sum of two
  integers below \<open>2^52\<close> in magnitude are computed exactly.
\<close>

lemma ilog2_bounds:
  "1 \<le> n \<Longrightarrow> 0 \<le> ilog2 n \<and> 2 ^ nat (ilog2 n) \<le> n \<and> n < 2 * 2 ^ nat (ilog2 n)"
proof (induction n rule: ilog2.induct)
  case (1 n)
  show ?case
  proof (cases "n < 2")
    case True
    with 1(2) have "n = 1" by simp
    then show ?thesis by (simp add: ilog2.simps)
  next
    case False
    then have h: "1 \<le> n div 2" by simp
    from 1(1) [OF False h] have ih: "0 \<le> ilog2 (n div 2)"
      "2 ^ nat (ilog2 (n div 2)) \<le> n div 2" "n div 2 < 2 * 2 ^ nat (ilog2 (n div 2))"
      by simp_all
    define p :: int where "p = 2 ^ nat (ilog2 (n div 2))"
    from False have eq: "ilog2 n = 1 + ilog2 (n div 2)" by (simp add: ilog2.simps)
    with ih(1) have "nat (ilog2 n) = Suc (nat (ilog2 (n div 2)))" by simp
    then have pw: "2 ^ nat (ilog2 n) = 2 * p" by (simp add: p_def)
    from ih(2,3) have "p \<le> n div 2" and "n div 2 < 2 * p" by (simp_all add: p_def)
    then have "2 * p \<le> n" and "n < 2 * (2 * p)" by linarith+
    with ih(1) eq show ?thesis unfolding pw by simp
  qed
qed

lemma round_even_int: "round_even (of_int k) = k"
  by (simp add: round_even_def Let_def)

lemma floor_log2_int:
  assumes "1 \<le> n"
  shows "floor_log2 (of_int n) = ilog2 n"
proof -
  from ilog2_bounds [OF assms] have nn: "0 \<le> ilog2 n" and le: "2 ^ nat (ilog2 n) \<le> n"
    by simp_all
  from le have "(of_int (2 ^ nat (ilog2 n)) :: rat) \<le> of_int n"
    by (simp only: of_int_le_iff)
  then have "(2 ^ nat (ilog2 n) :: rat) \<le> of_int n" by simp
  with nn have "pow2 (ilog2 n) \<le> of_int n" by (simp add: pow2_def)
  moreover have "ilog2 1 = 0" by (simp add: ilog2.simps)
  ultimately show ?thesis by (simp add: floor_log2_def Let_def)
qed

lemma round_magnitude_int:
  assumes "1 \<le> n" and "n < 2 ^ 53"
  shows "round_magnitude (of_int n) = Some (of_int n)"
proof -
  define e where "e = ilog2 n"
  from ilog2_bounds [OF assms(1)] have nn: "0 \<le> e" and le: "2 ^ nat e \<le> n"
    by (simp_all add: e_def)
  from le assms(2) have "(2::int) ^ nat e < 2 ^ 53" by linarith
  then have "nat e < 53" by (rule power_less_imp_less_exp [rotated]) simp
  with nn have e52: "e \<le> 52" by simp
  define k where "k = nat (52 - e)"
  have u: "pow2 (max (e - 52) (- 1074)) = 1 / 2 ^ k"
    using e52 nn by (auto simp: pow2_def k_def max_def)
  have q: "(of_int n :: rat) / (1 / 2 ^ k) = of_int (n * 2 ^ k)" by simp
  have m: "round_even (of_int n / (1 / 2 ^ k)) = n * 2 ^ k"
    unfolding q by (rule round_even_int)
  have fl: "floor_log2 (of_int n) = e"
    unfolding e_def by (rule floor_log2_int [OF assms(1)])
  have again: "(of_int (n * 2 ^ k) :: rat) * (1 / 2 ^ k) = of_int n" by simp
  show ?thesis
    unfolding round_magnitude_def fl Let_def u m again using e52 by simp
qed

lemma of_exact_int:
  assumes "\<bar>n\<bar> < 2 ^ 53"
  shows "of_exact (of_int n) = Num (of_int n)"
proof (cases "n = 0")
  case True
  then show ?thesis by (simp add: of_exact_def)
next
  case False
  then have "1 \<le> \<bar>n\<bar>" by simp
  from round_magnitude_int [OF this assms]
  have "round_magnitude \<bar>of_int n\<bar> = Some (of_int \<bar>n\<bar>)" by simp
  with False show ?thesis by (simp add: of_exact_def)
qed

lemma dsub_int:
  assumes "\<bar>i\<bar> < 2 ^ 52" and "\<bar>j\<bar> < 2 ^ 52"
  shows "dsub (Num (of_int i)) (Num (of_int j)) = Num (of_int (i - j))"
proof -
  from assms have "\<bar>i - j\<bar> < 2 ^ 53" and "\<bar>i\<bar> < 2 ^ 53" by simp_all
  from of_exact_int [OF this(1)] of_exact_int [OF this(2)] show ?thesis
    by (simp add: dsub_def dadd_def signed_zero_def)
qed

lemma dadd_int:
  assumes "\<bar>i\<bar> < 2 ^ 52" and "\<bar>j\<bar> < 2 ^ 52"
  shows "dadd (Num (of_int i)) (Num (of_int j)) = Num (of_int (i + j))"
proof -
  from assms have "\<bar>i + j\<bar> < 2 ^ 53" by simp
  from of_exact_int [OF this] show ?thesis
    by (simp add: dadd_def signed_zero_def)
qed

lemma dless_zero_int: "dless (Num 0) (Num (of_int k)) \<longleftrightarrow> 0 < k"
  by (simp add: dless_def)

lemma dless_int: "dless (Num (of_int i)) (Num (of_int j)) \<longleftrightarrow> i < j"
  by (simp add: dless_def)

lemma strict_unequal_int: "strict_unequal (Num (of_int i)) (Num (of_int j)) \<longleftrightarrow> i \<noteq> j"
  by (simp add: strict_unequal_def)

lemma dabs_int: "dabs (Num (of_int i)) = Num (of_int \<bar>i\<bar>)"
  by simp

subsection \<open>Sorting and sets\<close>

lemma set_insert_by: "set (insert_by cmp x ys) = insert x (set ys)"
  by (induction ys) auto

lemma set_array_sort: "set (array_sort cmp xs) = set xs"
  unfolding array_sort_def by (induction xs) (simp_all add: set_insert_by)

lemma length_insert_by: "length (insert_by cmp x ys) = Suc (length ys)"
  by (induction ys) simp_all

lemma length_array_sort: "length (array_sort cmp xs) = length xs"
  unfolding array_sort_def by (induction xs) (simp_all add: length_insert_by)

lemma distinct_map_insert_by:
  "distinct (map f (insert_by cmp x ys)) \<longleftrightarrow> f x \<notin> f ` set ys \<and> distinct (map f ys)"
  by (induction ys) (auto simp: set_insert_by)

lemma distinct_map_array_sort:
  "distinct (map f (array_sort cmp xs)) \<longleftrightarrow> distinct (map f xs)"
  unfolding array_sort_def
  by (induction xs) (simp_all add: distinct_map_insert_by set_array_sort [unfolded array_sort_def])

lemma set_foldl_set_add: "set (foldl set_add s xs) = set s \<union> set xs"
  by (induction xs arbitrary: s) (auto simp: set_add_def)

lemma distinct_foldl_set_add: "distinct s \<Longrightarrow> distinct (foldl set_add s xs)"
  by (induction xs arbitrary: s) (auto simp: set_add_def)

text \<open>
  Inserting into a list in order keeps it in order, when on the elements concerned the
  comparator is positive exactly against the elements that a total and transitive relation
  puts first.
\<close>

lemma sorted_wrt_insert_by:
  assumes cmp: "\<And>a b. a \<in> S \<Longrightarrow> b \<in> S \<Longrightarrow> dless (Num 0) (sort_compare cmp a b) \<longleftrightarrow> \<not> P a b"
    and tot: "\<And>a b. a \<in> S \<Longrightarrow> b \<in> S \<Longrightarrow> P a b \<or> P b a"
    and tr: "\<And>a b c. a \<in> S \<Longrightarrow> b \<in> S \<Longrightarrow> c \<in> S \<Longrightarrow> P a b \<Longrightarrow> P b c \<Longrightarrow> P a c"
    and x: "x \<in> S" and ys: "set ys \<subseteq> S" and srt: "sorted_wrt P ys"
  shows "sorted_wrt P (insert_by cmp x ys)"
  using ys srt
proof (induction ys)
  case Nil
  then show ?case by simp
next
  case (Cons y ys)
  from Cons.prems have y: "y \<in> S" and sub: "set ys \<subseteq> S" and srt: "sorted_wrt P ys"
    and first: "\<forall>z \<in> set ys. P y z"
    by simp_all
  show ?case
  proof (cases "P x y")
    case True
    have "P x z" if "z \<in> set ys" for z
    proof -
      from that sub have "z \<in> S" by blast
      moreover from that first have "P y z" by blast
      ultimately show ?thesis using tr [OF x y _ True] by blast
    qed
    with True Cons.prems cmp [OF x y] show ?thesis by simp
  next
    case False
    with tot [OF x y] have "P y x" by blast
    with False first cmp [OF x y] Cons.IH [OF sub srt] show ?thesis
      by (simp add: set_insert_by)
  qed
qed

lemma sorted_wrt_array_sort:
  assumes cmp: "\<And>a b. a \<in> S \<Longrightarrow> b \<in> S \<Longrightarrow> dless (Num 0) (sort_compare cmp a b) \<longleftrightarrow> \<not> P a b"
    and tot: "\<And>a b. a \<in> S \<Longrightarrow> b \<in> S \<Longrightarrow> P a b \<or> P b a"
    and tr: "\<And>a b c. a \<in> S \<Longrightarrow> b \<in> S \<Longrightarrow> c \<in> S \<Longrightarrow> P a b \<Longrightarrow> P b c \<Longrightarrow> P a c"
    and xs: "set xs \<subseteq> S"
  shows "sorted_wrt P (array_sort cmp xs)"
  using xs
proof (induction xs)
  case Nil
  then show ?case by (simp add: array_sort_def)
next
  case (Cons x xs)
  then have x: "x \<in> S" and sub: "set xs \<subseteq> S" by simp_all
  have "set (array_sort cmp xs) \<subseteq> S" using sub by (simp add: set_array_sort)
  from sorted_wrt_insert_by [of S cmp P, OF cmp tot tr x this Cons.IH [OF sub]]
  show ?case by (simp add: array_sort_def)
qed

subsection \<open>Property reads\<close>

text \<open>
  A property read is \<open>undefined\<close> exactly for a name that is neither an own property nor a
  member of \<open>Object.prototype\<close>.
\<close>

lemma get_prop_none_iff:
  "get_prop obj k = None \<longleftrightarrow> k \<notin> set (object_keys obj) \<and> k \<notin> set object_prototype_names"
proof (cases "map_of obj k")
  case None
  then have "k \<notin> set (object_keys obj)"
    by (simp add: object_keys_def map_of_eq_None_iff)
  with None show ?thesis by (simp add: get_prop_def)
next
  case (Some v)
  from map_of_SomeD [OF Some] have "k \<in> set (object_keys obj)"
    by (force simp: object_keys_def)
  with Some show ?thesis by (simp add: get_prop_def)
qed

lemma get_prop_inherited:
  assumes "k \<notin> set (object_keys obj)" and "k \<in> set object_prototype_names"
  shows "get_prop obj k = Some (Inherited k)"
proof -
  from assms(1) have "map_of obj k = None"
    by (simp add: object_keys_def map_of_eq_None_iff)
  with assms(2) show ?thesis by (simp add: get_prop_def)
qed

lemma get_prop_own:
  "k \<in> set (object_keys obj) \<Longrightarrow> \<exists>v. get_prop obj k = Some (Own v)"
proof -
  assume "k \<in> set (object_keys obj)"
  then have "map_of obj k \<noteq> None"
    by (simp add: object_keys_def map_of_eq_None_iff)
  then show ?thesis by (auto simp: get_prop_def)
qed

lemma get_prop_inherited_name:
  "get_prop obj k = Some (Inherited k') \<Longrightarrow> k \<in> set object_prototype_names"
  by (auto simp: get_prop_def split: option.splits if_splits)

subsection \<open>Language comparison\<close>

lemma collect_step_keys:
  "(case code a of None \<Rightarrow> ls
    | Some c \<Rightarrow> (case language_distribution c of None \<Rightarrow> ls
                 | Some d \<Rightarrow> foldl set_add ls (object_keys d)))
   = foldl set_add ls (language_keys a)"
  by (simp add: language_keys_def split: option.splits)

lemma collect_languages_pair:
  "collect_languages [a0, a1] =
     foldl set_add (foldl set_add [] (language_keys a0)) (language_keys a1)"
  by (simp add: collect_languages_def collect_step_keys)

lemma set_collect_languages_pair:
  "set (collect_languages [a0, a1]) = set (language_keys a0) \<union> set (language_keys a1)"
  by (simp add: collect_languages_pair set_foldl_set_add)

lemma language_of_entry: "language (language_entry_of analyses l) = l"
  by (simp add: language_entry_of_def Let_def)

lemma map_language_entries: "map language (map (language_entry_of analyses) ls) = ls"
  by (induction ls) (simp_all add: language_of_entry)

text \<open>
  The list holds exactly one entry for each language in the union of the two key sets,
  whatever the names of the languages are.
\<close>

lemma compareLanguages_languages:
  "set (map language (compareLanguages [a0, a1])) = set (language_keys a0) \<union> set (language_keys a1)"
  "distinct (map language (compareLanguages [a0, a1]))"
proof -
  have "set (map language (compareLanguages [a0, a1]))
      = set (map language (map (language_entry_of [a0, a1]) (collect_languages [a0, a1])))"
    by (simp add: compareLanguages_def set_array_sort image_image)
  then show "set (map language (compareLanguages [a0, a1]))
      = set (language_keys a0) \<union> set (language_keys a1)"
    by (simp only: map_language_entries collect_languages_pair set_foldl_set_add) simp
  have "distinct (collect_languages [a0, a1])"
    by (simp add: collect_languages_pair distinct_foldl_set_add)
  then have "distinct (map language (map (language_entry_of [a0, a1]) (collect_languages [a0, a1])))"
    by (simp only: map_language_entries)
  then show "distinct (map language (compareLanguages [a0, a1]))"
    by (simp add: compareLanguages_def distinct_map_array_sort)
qed

lemma compareLanguages_pair_entries:
  assumes "e \<in> set (compareLanguages [a0, a1])"
  shows "e = language_entry_of [a0, a1] (language e)"
proof -
  from assms obtain l where "e = language_entry_of [a0, a1] l"
    by (auto simp: compareLanguages_def set_array_sort)
  then show ?thesis by (simp add: language_of_entry)
qed

text \<open>
  The counts and the difference of an entry. A language that a document does not list
  counts 0 there when its name is not the name of a member of \<open>Object.prototype\<close>, and is
  the inherited member when it is, provided the document has a language distribution; the
  difference is then \<open>NaN\<close>.
\<close>

lemma entry_of_pair:
  "counts (language_entry_of [a0, a1] l) = [or_zero (lang_count a0 l), or_zero (lang_count a1 l)]"
  "diff (language_entry_of [a0, a1] l)
     = dsub (to_number (or_zero (lang_count a1 l))) (to_number (or_zero (lang_count a0 l)))"
  by (simp_all add: language_entry_of_def Let_def)

lemma lang_count_unlisted:
  assumes "l \<notin> set (language_keys a)" and "l \<notin> set object_prototype_names"
  shows "or_zero (lang_count a l) = Own (Num 0)"
proof -
  have "lang_count a l = None"
    using assms
    by (auto simp: lang_count_def language_keys_def get_prop_none_iff split: option.splits)
  then show ?thesis by (simp add: or_zero_def truthy_lookup_def)
qed

lemma lang_count_inherited:
  assumes "code a = Some c" and "language_distribution c = Some d"
    and "l \<notin> set (object_keys d)" and "l \<in> set object_prototype_names"
  shows "or_zero (lang_count a l) = Inherited l"
  using assms by (simp add: lang_count_def get_prop_inherited or_zero_def truthy_lookup_def)

lemma dsub_NaN: "dsub x NaN = NaN" "dsub NaN y = NaN"
  by (simp_all add: dsub_def dadd_def)

lemma diff_inherited:
  assumes "code a1 = Some c" and "language_distribution c = Some d"
    and "l \<notin> set (object_keys d)" and "l \<in> set object_prototype_names"
  shows "diff (language_entry_of [a0, a1] l) = NaN"
  using lang_count_inherited [OF assms] by (simp add: entry_of_pair dsub_NaN)

lemma or_zero_file_number:
  assumes "l \<notin> set object_prototype_names"
    and "\<And>v. lang_count a l = Some (Own v) \<Longrightarrow> \<exists>n. v = Num (of_int n) \<and> 0 \<le> n \<and> n < 2 ^ 52"
  shows "\<exists>n. or_zero (lang_count a l) = Own (Num (of_int n)) \<and> 0 \<le> n \<and> n < 2 ^ 52"
proof (cases "lang_count a l")
  case None
  then have "or_zero (lang_count a l) = Own (Num (of_int 0))"
    by (simp add: or_zero_def truthy_lookup_def)
  then show ?thesis by (intro exI [of _ 0]) simp
next
  case (Some r)
  show ?thesis
  proof (cases r)
    case (Own v)
    with Some assms(2) obtain n where n: "v = Num (of_int n)" "0 \<le> n" "n < 2 ^ 52" by blast
    show ?thesis
    proof (cases "truthy_number v")
      case True
      with Some Own have "or_zero (lang_count a l) = Own v"
        by (simp add: or_zero_def truthy_lookup_def)
      with n show ?thesis by blast
    next
      case False
      with Some Own have "or_zero (lang_count a l) = Own (Num (of_int 0))"
        by (simp add: or_zero_def truthy_lookup_def)
      then show ?thesis by (intro exI [of _ 0]) simp
    qed
  next
    case (Inherited k)
    with Some have "l \<in> set object_prototype_names"
      by (auto simp: lang_count_def split: option.splits dest: get_prop_inherited_name)
    with assms(1) show ?thesis by simp
  qed
qed

lemma compare_entries_int:
  assumes a: "counts a = [Own (Num (of_int i0)), Own (Num (of_int i1))]"
      "diff a = Num (of_int (i1 - i0))" "0 \<le> i0" "i0 < 2 ^ 52" "0 \<le> i1" "i1 < 2 ^ 52"
    and b: "counts b = [Own (Num (of_int j0)), Own (Num (of_int j1))]"
      "diff b = Num (of_int (j1 - j0))" "0 \<le> j0" "j0 < 2 ^ 52" "0 \<le> j1" "j1 < 2 ^ 52"
  shows "dless (Num 0) (sort_compare compare_entries a b)
           \<longleftrightarrow> \<not> (\<bar>j1 - j0\<bar> < \<bar>i1 - i0\<bar> \<or> (\<bar>i1 - i0\<bar> = \<bar>j1 - j0\<bar> \<and> j0 \<le> i0))"
    and "dless (dabs (diff b)) (dabs (diff a))
           \<or> (dabs (diff a) = dabs (diff b)
               \<and> \<not> dless (to_number (counts a ! 0)) (to_number (counts b ! 0)))
         \<longleftrightarrow> \<bar>j1 - j0\<bar> < \<bar>i1 - i0\<bar> \<or> (\<bar>i1 - i0\<bar> = \<bar>j1 - j0\<bar> \<and> j0 \<le> i0)"
proof -
  define p q where "p = \<bar>i1 - i0\<bar>" and "q = \<bar>j1 - j0\<bar>"
  from a(3-6) b(3-6) have bounds: "\<bar>p\<bar> < 2 ^ 52" "\<bar>q\<bar> < 2 ^ 52" "\<bar>i0\<bar> < 2 ^ 52" "\<bar>j0\<bar> < 2 ^ 52"
    by (simp_all add: p_def q_def)
  have da: "dabs (diff a) = Num (of_int p)" unfolding a(2) p_def by (rule dabs_int)
  have db: "dabs (diff b) = Num (of_int q)" unfolding b(2) q_def by (rule dabs_int)
  have ca: "to_number (counts a ! 0) = Num (of_int i0)" unfolding a(1) by simp
  have cb: "to_number (counts b ! 0) = Num (of_int j0)" unfolding b(1) by simp
  have "compare_entries a b
      = (if p \<noteq> q then dsub (Num (of_int q)) (Num (of_int p))
         else dsub (Num (of_int j0)) (Num (of_int i0)))"
    unfolding compare_entries_def Let_def da db ca cb strict_unequal_int ..
  also have "\<dots> = Num (of_int (if p \<noteq> q then q - p else j0 - i0))"
    using dsub_int [OF bounds(2,1)] dsub_int [OF bounds(4,3)] by simp
  finally have c: "compare_entries a b = Num (of_int (if p \<noteq> q then q - p else j0 - i0))" .
  have "sort_compare compare_entries a b = Num (of_int (if p \<noteq> q then q - p else j0 - i0))"
    unfolding sort_compare_def c Let_def by simp
  then have "dless (Num 0) (sort_compare compare_entries a b)
      \<longleftrightarrow> 0 < (if p \<noteq> q then q - p else j0 - i0)"
    by (simp only: dless_zero_int)
  then show "dless (Num 0) (sort_compare compare_entries a b)
           \<longleftrightarrow> \<not> (\<bar>j1 - j0\<bar> < \<bar>i1 - i0\<bar> \<or> (\<bar>i1 - i0\<bar> = \<bar>j1 - j0\<bar> \<and> j0 \<le> i0))"
    unfolding p_def [symmetric] q_def [symmetric] by auto
  have "dless (dabs (diff b)) (dabs (diff a))
           \<or> (dabs (diff a) = dabs (diff b)
               \<and> \<not> dless (to_number (counts a ! 0)) (to_number (counts b ! 0)))
         \<longleftrightarrow> q < p \<or> (p = q \<and> \<not> i0 < j0)"
    unfolding da db ca cb dless_int by simp
  then show "dless (dabs (diff b)) (dabs (diff a))
           \<or> (dabs (diff a) = dabs (diff b)
               \<and> \<not> dless (to_number (counts a ! 0)) (to_number (counts b ! 0)))
         \<longleftrightarrow> \<bar>j1 - j0\<bar> < \<bar>i1 - i0\<bar> \<or> (\<bar>i1 - i0\<bar> = \<bar>j1 - j0\<bar> \<and> j0 \<le> i0)"
    unfolding p_def [symmetric] q_def [symmetric] by auto
qed

text \<open>
  Documents whose languages are not named like members of \<open>Object.prototype\<close> and whose
  counts are numbers of files (non-negative integers below \<open>2^52\<close>): the counts of an entry
  are the listed counts, 0 for a language that a document does not list, and the difference
  is the second count minus the first.
\<close>

lemma entry_if_ordinary:
  assumes names: "\<forall>l \<in> set (language_keys a0) \<union> set (language_keys a1). l \<notin> set object_prototype_names"
    and nums: "\<forall>a \<in> {a0, a1}. \<forall>l v. lang_count a l = Some (Own v) \<longrightarrow>
                 (\<exists>n. v = Num (of_int n) \<and> 0 \<le> n \<and> n < 2 ^ 52)"
    and l: "l \<in> set (language_keys a0) \<union> set (language_keys a1)"
  shows "\<exists>i0 i1. counts (language_entry_of [a0, a1] l) = [Own (Num (of_int i0)), Own (Num (of_int i1))]
           \<and> diff (language_entry_of [a0, a1] l) = Num (of_int (i1 - i0))
           \<and> 0 \<le> i0 \<and> i0 < 2 ^ 52 \<and> 0 \<le> i1 \<and> i1 < 2 ^ 52"
proof -
  from l names have l: "l \<notin> set object_prototype_names" by blast
  from or_zero_file_number [OF l, of a0] nums
  obtain i0 where i0: "or_zero (lang_count a0 l) = Own (Num (of_int i0))" "0 \<le> i0" "i0 < 2 ^ 52"
    by auto
  from or_zero_file_number [OF l, of a1] nums
  obtain i1 where i1: "or_zero (lang_count a1 l) = Own (Num (of_int i1))" "0 \<le> i1" "i1 < 2 ^ 52"
    by auto
  from i0(2,3) i1(2,3) have "dsub (Num (of_int i1)) (Num (of_int i0)) = Num (of_int (i1 - i0))"
    by (intro dsub_int) simp_all
  with i0 i1 show ?thesis
    by (simp only: entry_of_pair to_number.simps) blast
qed

lemma compareLanguages_delta_if_ordinary:
  assumes names: "\<forall>l \<in> set (language_keys a0) \<union> set (language_keys a1). l \<notin> set object_prototype_names"
    and nums: "\<forall>a \<in> {a0, a1}. \<forall>l v. lang_count a l = Some (Own v) \<longrightarrow>
                 (\<exists>n. v = Num (of_int n) \<and> 0 \<le> n \<and> n < 2 ^ 52)"
    and e: "e \<in> set (compareLanguages [a0, a1])"
  shows "\<exists>i0 i1. counts e = [Own (Num (of_int i0)), Own (Num (of_int i1))]
           \<and> diff e = Num (of_int (i1 - i0))
           \<and> (language e \<notin> set (language_keys a0) \<longrightarrow> i0 = 0)
           \<and> (language e \<notin> set (language_keys a1) \<longrightarrow> i1 = 0)"
proof -
  from compareLanguages_languages(1) [of a0 a1] e
  have l: "language e \<in> set (language_keys a0) \<union> set (language_keys a1)" by auto
  with names have p: "language e \<notin> set object_prototype_names" by blast
  from entry_if_ordinary [OF names nums l] compareLanguages_pair_entries [OF e]
  obtain i0 i1 where c: "counts e = [Own (Num (of_int i0)), Own (Num (of_int i1))]"
    and d: "diff e = Num (of_int (i1 - i0))"
    by auto
  from compareLanguages_pair_entries [OF e]
  have "counts e = [or_zero (lang_count a0 (language e)), or_zero (lang_count a1 (language e))]"
    by (metis entry_of_pair(1))
  with c have z: "or_zero (lang_count a0 (language e)) = Own (Num (of_int i0))"
    "or_zero (lang_count a1 (language e)) = Own (Num (of_int i1))"
    by simp_all
  have "i0 = 0" if "language e \<notin> set (language_keys a0)"
    using lang_count_unlisted [OF that p] z(1) by simp
  moreover have "i1 = 0" if "language e \<notin> set (language_keys a1)"
    using lang_count_unlisted [OF that p] z(2) by simp
  ultimately show ?thesis using c d by blast
qed

text \<open>
  For such documents the list is in the order of descending absolute difference, and of two
  entries with the same absolute difference the one with more files in the first document
  is first.
\<close>

lemma compareLanguages_sorted_if_ordinary:
  assumes names: "\<forall>l \<in> set (language_keys a0) \<union> set (language_keys a1). l \<notin> set object_prototype_names"
    and nums: "\<forall>a \<in> {a0, a1}. \<forall>l v. lang_count a l = Some (Own v) \<longrightarrow>
                 (\<exists>n. v = Num (of_int n) \<and> 0 \<le> n \<and> n < 2 ^ 52)"
  shows "sorted_wrt
           (\<lambda>a b. dless (dabs (diff b)) (dabs (diff a))
                  \<or> (dabs (diff a) = dabs (diff b)
                      \<and> \<not> dless (to_number (counts a ! 0)) (to_number (counts b ! 0))))
           (compareLanguages [a0, a1])"
proof -
  let ?P = "\<lambda>a b. dless (dabs (diff b)) (dabs (diff a))
                  \<or> (dabs (diff a) = dabs (diff b)
                      \<and> \<not> dless (to_number (counts a ! 0)) (to_number (counts b ! 0)))"
  define S where "S = {e :: language_entry. \<exists>i0 i1.
      counts e = [Own (Num (of_int i0)), Own (Num (of_int i1))] \<and> diff e = Num (of_int (i1 - i0))
      \<and> 0 \<le> i0 \<and> i0 < 2 ^ 52 \<and> 0 \<le> i1 \<and> i1 < 2 ^ 52}"
  have member: "language_entry_of [a0, a1] l \<in> S" if "l \<in> set (collect_languages [a0, a1])" for l
  proof -
    from that have "l \<in> set (language_keys a0) \<union> set (language_keys a1)"
      by (simp add: set_collect_languages_pair)
    from entry_if_ordinary [OF names nums this] show ?thesis
      unfolding S_def by blast
  qed
  have cmp: "dless (Num 0) (sort_compare compare_entries a b) \<longleftrightarrow> \<not> ?P a b"
    if "a \<in> S" and "b \<in> S" for a b
  proof -
    from that obtain i0 i1 j0 j1 where
      a: "counts a = [Own (Num (of_int i0)), Own (Num (of_int i1))]"
         "diff a = Num (of_int (i1 - i0))" "0 \<le> i0" "i0 < 2 ^ 52" "0 \<le> i1" "i1 < 2 ^ 52"
      and b: "counts b = [Own (Num (of_int j0)), Own (Num (of_int j1))]"
         "diff b = Num (of_int (j1 - j0))" "0 \<le> j0" "j0 < 2 ^ 52" "0 \<le> j1" "j1 < 2 ^ 52"
      unfolding S_def by blast
    show ?thesis
      unfolding compare_entries_int(1) [OF a b] compare_entries_int(2) [OF a b] ..
  qed
  have tot: "?P a b \<or> ?P b a" if "a \<in> S" and "b \<in> S" for a b
  proof -
    from that obtain i0 i1 j0 j1 where
      a: "counts a = [Own (Num (of_int i0)), Own (Num (of_int i1))]"
         "diff a = Num (of_int (i1 - i0))" "0 \<le> i0" "i0 < 2 ^ 52" "0 \<le> i1" "i1 < 2 ^ 52"
      and b: "counts b = [Own (Num (of_int j0)), Own (Num (of_int j1))]"
         "diff b = Num (of_int (j1 - j0))" "0 \<le> j0" "j0 < 2 ^ 52" "0 \<le> j1" "j1 < 2 ^ 52"
      unfolding S_def by blast
    show ?thesis
      unfolding compare_entries_int(2) [OF a b] compare_entries_int(2) [OF b a] by linarith
  qed
  have tr: "?P a c" if "a \<in> S" and "b \<in> S" and "c \<in> S" and "?P a b" and "?P b c" for a b c
  proof -
    from that(1-3) obtain i0 i1 j0 j1 k0 k1 where
      a: "counts a = [Own (Num (of_int i0)), Own (Num (of_int i1))]"
         "diff a = Num (of_int (i1 - i0))" "0 \<le> i0" "i0 < 2 ^ 52" "0 \<le> i1" "i1 < 2 ^ 52"
      and b: "counts b = [Own (Num (of_int j0)), Own (Num (of_int j1))]"
         "diff b = Num (of_int (j1 - j0))" "0 \<le> j0" "j0 < 2 ^ 52" "0 \<le> j1" "j1 < 2 ^ 52"
      and c: "counts c = [Own (Num (of_int k0)), Own (Num (of_int k1))]"
         "diff c = Num (of_int (k1 - k0))" "0 \<le> k0" "k0 < 2 ^ 52" "0 \<le> k1" "k1 < 2 ^ 52"
      unfolding S_def by blast
    from that(4,5) show ?thesis
      unfolding compare_entries_int(2) [OF a b] compare_entries_int(2) [OF b c]
        compare_entries_int(2) [OF a c]
      by linarith
  qed
  have sub: "set (map (language_entry_of [a0, a1]) (collect_languages [a0, a1])) \<subseteq> S"
    using member by auto
  have "sorted_wrt ?P
      (array_sort compare_entries (map (language_entry_of [a0, a1]) (collect_languages [a0, a1])))"
    by (rule sorted_wrt_array_sort [of S compare_entries ?P, OF cmp tot tr sub])
  then show ?thesis by (simp add: compareLanguages_def)
qed

text \<open>
  Two documents with ordinary language names: the entries are in the order of descending
  absolute difference, and of two with the same absolute difference the one with more files
  in the first document is first.
\<close>

lemma compareLanguages_example:
  "map language (compareLanguages [doc_before, doc_after]) = [''Python'', ''Go'', ''Rust'']
   \<and> map counts (compareLanguages [doc_before, doc_after])
       = [[Own (Num 10), Own (Num 4)], [Own (Num 3), Own (Num 5)], [Own (Num 0), Own (Num 2)]]
   \<and> map diff (compareLanguages [doc_before, doc_after]) = [Num (- 6), Num 2, Num 2]"
  by code_simp

text \<open>
  Claim C1 says that the list is in non-increasing order of the absolute difference of the
  counts, for every pair of documents, as the comment of the comparator does (\<open>Sort by
  absolute difference, then by first analysis count\<close>). For the documents with the distributions
  \<open>{A: 1, constructor: 3, B: 5}\<close> and \<open>{A: 2, B: 10}\<close> the second count of \<open>constructor\<close> is the
  inherited member of the second distribution, a function, and the difference is \<open>NaN\<close>.
  The comparator returns \<open>NaN\<close> against this entry, which the sort takes for \<open>+0\<close>, and the
  list stays as the languages were collected: \<open>A\<close> with the absolute difference 1 is before
  \<open>B\<close> with 5.
\<close>

theorem C1_compareLanguages_unsorted_at_inherited_name:
  "map language (compareLanguages [doc_a1, doc_a2]) = [''A'', ''constructor'', ''B'']
   \<and> map counts (compareLanguages [doc_a1, doc_a2])
       = [[Own (Num 1), Own (Num 2)], [Own (Num 3), Inherited ''constructor''],
          [Own (Num 5), Own (Num 10)]]
   \<and> map (\<lambda>e. dabs (diff e)) (compareLanguages [doc_a1, doc_a2]) = [Num 1, NaN, Num 5]
   \<and> dless (Num 1) (Num 5)"
  by code_simp

text \<open>
  Claim C3 says that every entry's difference is the count in the second document minus
  the count in the first, a language that a document does not list counting 0. For the
  documents with the distributions \<open>{constructor: 3}\<close> and \<open>{Go: 1}\<close> there is one entry for
  each of the two languages, but the second document, which does not list \<open>constructor\<close>,
  contributes the inherited member of its distribution and not 0: the difference is \<open>NaN\<close>
  where the claim has \<open>0 - 3\<close>.
\<close>

theorem C3_compareLanguages_delta_at_inherited_name:
  "map language (compareLanguages [doc_c1, doc_c2]) = [''constructor'', ''Go'']
   \<and> language_keys doc_c2 = [''Go'']
   \<and> map counts (compareLanguages [doc_c1, doc_c2])
       = [[Own (Num 3), Inherited ''constructor''], [Own (Num 0), Own (Num 1)]]
   \<and> map diff (compareLanguages [doc_c1, doc_c2]) = [NaN, Num 1]
   \<and> dsub (Num 0) (Num 3) = Num (- 3)"
  by code_simp

subsection \<open>File lists\<close>

text \<open>
  When no summary of either document is the empty string and no file is named like a
  member of \<open>Object.prototype\<close>, the three lists are the intersection and the two
  differences of the key sets.
\<close>

lemma summary_truthy_iff_key:
  assumes "\<forall>g \<in> set (file_keys a). summary_of a g \<noteq> Some (Own [])"
    and "f \<notin> set object_prototype_names"
  shows "truthy_lookup truthy_string (summary_of a f) \<longleftrightarrow> f \<in> set (file_keys a)"
proof (cases "f \<in> set (file_keys a)")
  case True
  then obtain c where c: "code a = Some c"
    by (cases "code a") (simp_all add: file_keys_def)
  with True obtain d where d: "file_summaries c = Some d"
    by (cases "file_summaries c") (simp_all add: file_keys_def)
  from True c d have k: "f \<in> set (object_keys d)"
    by (simp add: file_keys_def)
  from get_prop_own [OF k] obtain v where "get_prop d f = Some (Own v)" ..
  with c d have s: "summary_of a f = Some (Own v)" by (simp add: summary_of_def)
  with assms(1) True have "v \<noteq> []" by auto
  with s True show ?thesis by (simp add: truthy_lookup_def truthy_string_def)
next
  case False
  with assms(2) have "summary_of a f = None"
    by (auto simp: summary_of_def file_keys_def get_prop_none_iff split: option.splits)
  with False show ?thesis by (simp add: truthy_lookup_def)
qed

lemma file_lists_partition_if_summaries_nonempty:
  assumes "\<forall>f \<in> set (file_keys a0). summary_of a0 f \<noteq> Some (Own [])"
    and "\<forall>f \<in> set (file_keys a1). summary_of a1 f \<noteq> Some (Own [])"
    and "\<forall>f \<in> set (file_keys a0) \<union> set (file_keys a1). f \<notin> set object_prototype_names"
  shows "set (common_files a0 a1) = set (file_keys a0) \<inter> set (file_keys a1)"
    and "set (new_files a0 a1) = set (file_keys a1) - set (file_keys a0)"
    and "set (removed_files a0 a1) = set (file_keys a0) - set (file_keys a1)"
proof -
  show "set (common_files a0 a1) = set (file_keys a0) \<inter> set (file_keys a1)"
    using assms(3) summary_truthy_iff_key [OF assms(2)] by (auto simp: common_files_def)
  show "set (new_files a0 a1) = set (file_keys a1) - set (file_keys a0)"
    using assms(3) summary_truthy_iff_key [OF assms(1)] by (auto simp: new_files_def)
  show "set (removed_files a0 a1) = set (file_keys a0) - set (file_keys a1)"
    using assms(3) summary_truthy_iff_key [OF assms(2)] by (auto simp: removed_files_def)
qed

text \<open>Whatever the documents are, no file is both common and removed.\<close>

lemma common_removed_disjoint:
  "set (common_files a0 a1) \<inter> set (removed_files a0 a1) = {}"
  by (auto simp: common_files_def removed_files_def)

lemma file_lists_shown_bounds:
  "length (common_files_shown a0 a1) \<le> 5 \<and> length (new_files_shown a0 a1) \<le> 6
   \<and> length (removed_files_shown a0 a1) \<le> 6"
  by (simp add: common_files_shown_def new_files_shown_def removed_files_shown_def slice0_def)

text \<open>
  A file named \<open>valueOf\<close> that only the second document holds is in none of the three
  lists: the first document's summaries answer the read with the inherited member.
\<close>

lemma file_named_like_inherited_member:
  "file_keys doc_no_files = [] \<and> file_keys doc_valueOf_file = [''valueOf'']
   \<and> common_files doc_no_files doc_valueOf_file = []
   \<and> new_files doc_no_files doc_valueOf_file = []
   \<and> removed_files doc_no_files doc_valueOf_file = []"
  by code_simp

text \<open>
  Claim C2. The claim says that the common, new and removed file lists are pairwise
  disjoint and that the common files are the keys that occur in both documents. The filters
  test the truthiness of the summary, not the presence of the key: for two documents that
  both hold the file \<open>a.js\<close> with the empty string as summary, the file is listed under
  New Files and under Removed Files, and it is not among the common files.
\<close>

theorem C2_file_lists_empty_summary:
  "file_keys doc_empty_summary = [''a.js'']
   \<and> common_files doc_empty_summary doc_empty_summary = []
   \<and> new_files doc_empty_summary doc_empty_summary = [''a.js'']
   \<and> removed_files doc_empty_summary doc_empty_summary = [''a.js'']
   \<and> set (new_files doc_empty_summary doc_empty_summary)
       \<inter> set (removed_files doc_empty_summary doc_empty_summary) \<noteq> {}"
  by (simp add: doc_empty_summary_def file_keys_def common_files_def new_files_def
      removed_files_def summary_of_def object_keys_def get_prop_def truthy_lookup_def
      truthy_string_def)

subsection \<open>Percentages\<close>

text \<open>
  On the comparison page a percentage is the number 0 when the read of the count or
  \<open>file_count\<close> is falsy, and the rendering of count / \<open>file_count\<close> \<open>\<times>\<close> 100 otherwise.
\<close>

lemma percentage_of_guarded:
  assumes "lang_count a l = Some (Own n)" and "file_count a = Some m"
  shows "percentage_of a l =
           (if is_zero n \<or> n = NaN \<or> is_zero m \<or> m = NaN then Num0
            else Fixed (toFixed1 (dmul (ddiv n m) (Num 100))))"
  using assms by (auto simp: percentage_of_def truthy_lookup_def truthy_num_def truthy_number_def)

lemma percentage_of_missing:
  "lang_count a l = None \<or> file_count a = None \<Longrightarrow> percentage_of a l = Num0"
  by (auto simp: percentage_of_def truthy_lookup_def truthy_num_def)

text \<open>The division, the multiplication and the rendering on doubles: 10 of 13 files, 1 of 3, 1 of 8.\<close>

lemma toFixed1_examples:
  "toFixed1 (dmul (ddiv (Num 10) (Num 13)) (Num 100)) = ''76.9''
   \<and> toFixed1 (dmul (ddiv (Num 1) (Num 3)) (Num 100)) = ''33.3''
   \<and> toFixed1 (dmul (ddiv (Num 1) (Num 8)) (Num 100)) = ''12.5''
   \<and> toFixed1 (dmul (ddiv (Num 7) (Num 7)) (Num 100)) = ''100.0''"
  by code_simp

lemma percentages_example:
  "map percentages (compareLanguages [doc_before, doc_after])
     = [[Fixed ''76.9'', Fixed ''36.4''], [Fixed ''23.1'', Fixed ''45.5''], [Num0, Fixed ''18.2'']]
   \<and> results_percentages doc_before = Some [(''Python'', ''76.9''), (''Go'', ''23.1'')]"
  by code_simp

text \<open>
  The chart's denominator is the sum of the counts, added as doubles from 0 on in the
  order of the sorted data; for numbers of files (non-negative integers) with a sum below
  \<open>2^52\<close> it is the exact sum.
\<close>

lemma sum_insert_by:
  "sum_list (map g (insert_by cmp x ys)) = (g x :: int) + sum_list (map g ys)"
  by (induction ys) simp_all

lemma sum_array_sort: "sum_list (map g (array_sort cmp xs)) = (sum_list (map g xs) :: int)"
  unfolding array_sort_def by (induction xs) (simp_all add: sum_insert_by)

lemma foldl_dadd_int:
  assumes "\<forall>x \<in> set xs. item_value x = Num (of_int (g x)) \<and> 0 \<le> g x"
    and "0 \<le> acc" and "acc + sum_list (map g xs) < 2 ^ 52"
  shows "foldl (\<lambda>acc item. dadd acc (item_value item)) (Num (of_int acc)) xs
           = Num (of_int (acc + sum_list (map g xs)))"
  using assms
proof (induction xs arbitrary: acc)
  case Nil
  then show ?case by simp
next
  case (Cons x xs)
  from Cons.prems(1) have x: "item_value x = Num (of_int (g x))" "0 \<le> g x"
    and rest: "\<forall>y \<in> set xs. item_value y = Num (of_int (g y)) \<and> 0 \<le> g y"
    by simp_all
  from rest have nonneg: "0 \<le> sum_list (map g xs)"
    by (induction xs) simp_all
  from Cons.prems(2,3) x(2) nonneg have "\<bar>acc\<bar> < 2 ^ 52" and "\<bar>g x\<bar> < 2 ^ 52"
    by simp_all
  from dadd_int [OF this] x(1)
  have step: "dadd (Num (of_int acc)) (item_value x) = Num (of_int (acc + g x))" by simp
  from Cons.prems(2,3) x(2) have "0 \<le> acc + g x" and "acc + g x + sum_list (map g xs) < 2 ^ 52"
    by simp_all
  from Cons.IH [OF rest this] step show ?case by (simp add: add.assoc)
qed

lemma totalFiles_is_sum:
  assumes "\<forall>(l, v) \<in> set d. \<exists>n. v = Num (of_int n) \<and> 0 \<le> n"
    and "sum_list (map (\<lambda>(l, v). \<lfloor>finite_value v\<rfloor>) d) < 2 ^ 52"
  shows "totalFiles (chartData d) = Num (of_int (sum_list (map (\<lambda>(l, v). \<lfloor>finite_value v\<rfloor>) d)))"
proof -
  define g where "g item = \<lfloor>finite_value (item_value item)\<rfloor>" for item :: chart_item
  let ?items = "map (\<lambda>(l, n). \<lparr> item_name = l, item_value = n, item_color = getLanguageColor l \<rparr>) d"
  have vals: "\<forall>x \<in> set ?items. item_value x = Num (of_int (g x)) \<and> 0 \<le> g x"
    using assms(1) by (auto simp: g_def)
  have sums: "sum_list (map g ?items) = sum_list (map (\<lambda>(l, v). \<lfloor>finite_value v\<rfloor>) d)"
    by (simp add: g_def comp_def case_prod_unfold)
  have "\<forall>x \<in> set (chartData d). item_value x = Num (of_int (g x)) \<and> 0 \<le> g x"
    using vals by (simp add: chartData_def set_array_sort)
  moreover have "sum_list (map g (chartData d)) = sum_list (map (\<lambda>(l, v). \<lfloor>finite_value v\<rfloor>) d)"
    unfolding chartData_def sum_array_sort sums ..
  ultimately show ?thesis
    using foldl_dadd_int [of "chartData d" g 0] assms(2) by (simp add: totalFiles_def)
qed

lemma chart_example:
  "LanguageDistributionChart (Some [(''Go'', Num 3), (''Python'', Num 10)])
     = Some \<lparr> view_data = [\<lparr> item_name = ''Python'', item_value = Num 10, item_color = Own ''#3572A5'' \<rparr>,
                            \<lparr> item_name = ''Go'', item_value = Num 3, item_color = Own ''#00ADD8'' \<rparr>],
              view_total = Num 13, view_primary = ''Python'', view_primary_pct = ''76.9%'' \<rparr>
   \<and> CustomTooltip (Num 13) True
        (Some [\<lparr> item_name = ''Go'', item_value = Num 3, item_color = Own ''#00ADD8'' \<rparr>])
       = Some ''23.1''
   \<and> LanguageDistributionChart None = None \<and> LanguageDistributionChart (Some []) = None"
  by code_simp

text \<open>A language that the colour table does not list but \<open>Object.prototype\<close> does has no colour.\<close>

lemma getLanguageColor_examples:
  "getLanguageColor ''Go'' = Own ''#00ADD8'' \<and> getLanguageColor ''Fortran'' = Own ''#cccccc''
   \<and> getLanguageColor ''constructor'' = Inherited ''constructor''"
  by code_simp

text \<open>
  Claim C4 says that the percentage shown is 0 whenever the count or \<open>file_count\<close> is
  missing or zero, that no division has a missing or zero denominator, and that the chart
  uses the formula with the sum of the counts as denominator. The comparison page guards
  its division, and shows the number 0 for a document whose \<open>file_count\<close> is 0 or missing.
  The results page divides by \<open>file_count\<close> without a guard: with three Python files it
  shows \<open>Infinity\<close> for the \<open>file_count\<close> 0 and \<open>NaN\<close> for a missing one. The chart divides by
  the sum without a guard: for the distribution \<open>{Go: 0}\<close> the sum is 0, and the primary
  language and the tooltip show \<open>NaN\<close>. On the comparison page the count of \<open>constructor\<close>,
  which the second of the documents \<open>{constructor: 3}\<close> and \<open>{Go: 1}\<close> does not list, is
  the inherited member, and the percentage shown is \<open>NaN\<close>.
\<close>

theorem C4_percentages_unguarded_divisions:
  "map percentages (compareLanguages [doc_zero_count, doc_no_count]) = [[Num0, Num0]]
   \<and> results_percentages doc_zero_count = Some [(''Python'', ''Infinity'')]
   \<and> results_percentages doc_no_count = Some [(''Python'', ''NaN'')]
   \<and> map_option view_total (LanguageDistributionChart (Some [(''Go'', Num 0)])) = Some (Num 0)
   \<and> map_option view_primary_pct (LanguageDistributionChart (Some [(''Go'', Num 0)])) = Some ''NaN%''
   \<and> CustomTooltip (Num 0) True
        (Some [\<lparr> item_name = ''Go'', item_value = Num 0, item_color = Own ''#00ADD8'' \<rparr>])
       = Some ''NaN''
   \<and> map language (compareLanguages [doc_c1, doc_c2]) = [''constructor'', ''Go'']
   \<and> map percentages (compareLanguages [doc_c1, doc_c2])
       = [[Fixed ''100.0'', Fixed ''NaN''], [Num0, Fixed ''100.0'']]"
  by code_simp

subsection \<open>Guards on the number of analyses\<close>

lemma length_split_on:
  "length (split_on sep s) = Suc (length (filter (\<lambda>c. c = sep) s))"
  by (induction s) (auto split: list.splits)

text \<open>
  Claim C9. When the number of loaded analyses is not 2, \<open>compareLanguages\<close> returns the
  empty list and \<open>getAgeDifference\<close> returns \<open>null\<close>. The ids of the page are the
  comma-separated pieces of the \<open>ids\<close> parameter (none when the parameter is absent; two
  exactly when the parameter holds one comma). When they are not exactly two, no results
  are requested, and the error \<open>Please select two analyses to compare\<close> is set with loading
  ended; when they are two, results are requested for both.
\<close>

theorem C9_guards_on_two:
  "(length as \<noteq> 2 \<longrightarrow> compareLanguages as = [] \<and> getAgeDifference date_ms as = None)
   \<and> (length (analysisIds ids) \<noteq> 2 \<longrightarrow>
        fetchAnalyses api (analysisIds ids) st
          = ([], st\<lparr> st_error := Some ''Please select two analyses to compare'',
                     st_loading := False \<rparr>))
   \<and> (length (analysisIds ids) = 2 \<longrightarrow>
        fst (fetchAnalyses api (analysisIds ids) st) = analysisIds ids)
   \<and> (length (analysisIds ids) = 2 \<longleftrightarrow>
        (\<exists>s. ids = Some s \<and> length (filter (\<lambda>c. c = CHR '','') s) = 1))"
proof -
  have "length as \<noteq> 2 \<longrightarrow> compareLanguages as = [] \<and> getAgeDifference date_ms as = None"
    by (simp add: compareLanguages_def getAgeDifference_def)
  moreover have "length (analysisIds ids) \<noteq> 2 \<longrightarrow>
        fetchAnalyses api (analysisIds ids) st
          = ([], st\<lparr> st_error := Some ''Please select two analyses to compare'',
                     st_loading := False \<rparr>)"
    by (simp add: fetchAnalyses_def)
  moreover have "length (analysisIds ids) = 2 \<longrightarrow>
        fst (fetchAnalyses api (analysisIds ids) st) = analysisIds ids"
    by (simp add: fetchAnalyses_def Let_def)
  moreover have "length (analysisIds ids) = 2 \<longleftrightarrow>
        (\<exists>s. ids = Some s \<and> length (filter (\<lambda>c. c = CHR '','') s) = 1)"
    by (cases ids) (simp_all add: analysisIds_def length_split_on)
  ultimately show ?thesis by blast
qed

theorem C9_guards_on_two_witness:
  "compareLanguages [doc_before] = []
   \<and> getAgeDifference (\<lambda>d. None) [doc_before] = None
   \<and> analysisIds (Some ''a1,a2,a3'') = [''a1'', ''a2'', ''a3'']
   \<and> fetchAnalyses (\<lambda>i. (0, Inr doc_before)) (analysisIds (Some ''a1,a2,a3'')) initial_compare_state
       = ([], \<lparr> st_analyses = [], st_loading = False,
                st_error = Some ''Please select two analyses to compare'' \<rparr>)
   \<and> fetchAnalyses (\<lambda>i. (0, Inr doc_before)) (analysisIds None) initial_compare_state
       = ([], \<lparr> st_analyses = [], st_loading = False,
                st_error = Some ''Please select two analyses to compare'' \<rparr>)
   \<and> fst (fetchAnalyses (\<lambda>i. (0, Inr doc_before)) (analysisIds (Some ''a1,a2'')) initial_compare_state)
       = [''a1'', ''a2'']"
proof -
  have ids3: "analysisIds (Some ''a1,a2,a3'') = [''a1'', ''a2'', ''a3'']"
    and ids0: "analysisIds None = []"
    and ids2: "analysisIds (Some ''a1,a2'') = [''a1'', ''a2'']"
    by (simp_all add: analysisIds_def)
  show ?thesis
    using C9_guards_on_two [of "[doc_before]" "\<lambda>d. None" "Some ''a1,a2,a3''"
        "\<lambda>i. (0, Inr doc_before)" initial_compare_state]
      C9_guards_on_two [of "[doc_before]" "\<lambda>d. None" None "\<lambda>i. (0, Inr doc_before)" initial_compare_state]
      C9_guards_on_two [of "[doc_before]" "\<lambda>d. None" "Some ''a1,a2''"
        "\<lambda>i. (0, Inr doc_before)" initial_compare_state]
    by (simp add: ids3 ids0 ids2 initial_compare_state_def)
qed

text \<open>
  With two ids, the page takes the documents in the order of the ids when both requests
  succeed, and the error of the request that fails first in time otherwise.
\<close>

lemma fetchAnalyses_examples:
  "snd (fetchAnalyses (\<lambda>i. if i = ''a1'' then (7, Inr doc_before) else (3, Inr doc_after))
          [''a1'', ''a2''] initial_compare_state)
     = \<lparr> st_analyses = [doc_before, doc_after], st_loading = False, st_error = None \<rparr>
   \<and> snd (fetchAnalyses (\<lambda>i. if i = ''a1'' then (7, Inl ''timeout'') else (3, Inl ''not found''))
          [''a1'', ''a2''] initial_compare_state)
     = \<lparr> st_analyses = [], st_loading = False, st_error = Some ''not found'' \<rparr>"
  by (simp add: fetchAnalyses_def initial_compare_state_def)

subsection \<open>Status display\<close>

lemma statusMap_keys:
  "object_keys statusMap =
     [''pending'', ''running'', ''analyzing_code'', ''analyzing_dependencies'',
      ''analyzing_business'', ''analyzing_architecture'', ''completed'', ''failed'']"
  by (simp add: object_keys_def statusMap_def)

text \<open>
  A status that is neither a key of \<open>statusMap\<close> nor the name of a member of
  \<open>Object.prototype\<close> is shown as the gray \<open>Unknown\<close>; a key is shown as its entry.
\<close>

lemma getStatusInfo_unknown:
  assumes "status \<notin> set (object_keys statusMap)" and "status \<notin> set object_prototype_names"
  shows "getStatusInfo status = Own \<lparr> color = ''#6B7280'', label = ''Unknown'' \<rparr>"
proof -
  from assms have "get_prop statusMap status = None"
    by (simp add: get_prop_none_iff)
  then show ?thesis by (simp add: getStatusInfo_def)
qed

lemma getStatusInfo_known:
  assumes "status \<in> set (object_keys statusMap)"
  shows "\<exists>info. getStatusInfo status = Own info \<and> map_of statusMap status = Some info"
proof -
  from assms have "map_of statusMap status \<noteq> None"
    by (simp add: object_keys_def map_of_eq_None_iff)
  then show ?thesis by (auto simp: getStatusInfo_def get_prop_def)
qed

lemma getStatusInfo_examples:
  "getStatusInfo ''failed'' = Own \<lparr> color = ''#EF4444'', label = ''Failed'' \<rparr>
   \<and> getStatusInfo ''queued'' = Own \<lparr> color = ''#6B7280'', label = ''Unknown'' \<rparr>
   \<and> getStatusInfo [] = Own \<lparr> color = ''#6B7280'', label = ''Unknown'' \<rparr>"
  by code_simp

text \<open>
  Claim C10 says that every status string outside the eight keys is shown as the gray
  \<open>Unknown\<close>, so that the lookup is never undefined. For the status \<open>constructor\<close>, and
  likewise \<open>toString\<close> and \<open>__proto__\<close>, the read of \<open>statusMap\<close> finds the inherited member
  of that name, the fallback is not taken, and the colour and the label that the component
  takes from the result are both \<open>undefined\<close>.
\<close>

theorem C10_getStatusInfo_at_inherited_name:
  "''constructor'' \<notin> set (object_keys statusMap)
   \<and> getStatusInfo ''constructor'' = Inherited ''constructor''
   \<and> color_of (getStatusInfo ''constructor'') = None
   \<and> label_of (getStatusInfo ''constructor'') = None
   \<and> getStatusInfo ''toString'' = Inherited ''toString''
   \<and> getStatusInfo ''__proto__'' = Inherited ''__proto__''"
  by code_simp

subsection \<open>Gateway\<close>

text \<open>
  The resolver as a function of strings: it deletes a leading \<open>/api/v1/source-code\<close> and
  returns every other string as it is.
\<close>

lemma replace_leading_prefix: "replace_leading p r (p @ rest) = r @ rest"
  by (simp add: replace_leading_def)

lemma replace_leading_no_prefix:
  assumes "\<nexists>rest. s = p @ rest"
  shows "replace_leading p r s = s"
proof -
  have "take (length p) s \<noteq> p"
  proof
    assume "take (length p) s = p"
    then have "s = p @ drop (length p) s" by (metis append_take_drop_id)
    with assms show False by blast
  qed
  then show ?thesis by (simp add: replace_leading_def)
qed

lemma resolver_deletes_prefix: "proxyReqPathResolver (''/api/v1/source-code'' @ rest) = rest"
  unfolding proxyReqPathResolver_def by (simp only: replace_leading_prefix append_Nil)

lemma resolver_keeps_other:
  "(\<nexists>rest. url = ''/api/v1/source-code'' @ rest) \<Longrightarrow> proxyReqPathResolver url = url"
  unfolding proxyReqPathResolver_def by (rule replace_leading_no_prefix)

lemma sourceCodeServiceUrl_cases:
  "sourceCodeServiceUrl (\<lambda>k. None) = ''http://source-code-service:8000''
   \<and> sourceCodeServiceUrl (\<lambda>k. Some []) = ''http://source-code-service:8000''
   \<and> sourceCodeServiceUrl (\<lambda>k. Some ''http://localhost:8000'') = ''http://localhost:8000''"
  by (simp add: sourceCodeServiceUrl_def truthy_str_def)

text \<open>
  What the resolver is given is not the URL of the request: the two mounts have taken
  \<open>/api\<close> and \<open>/v1/source-code\<close> off already.
\<close>

lemma mounts_strip_prefix:
  "use_mount ''/api'' ''/api/v1/source-code/github/repositories?page=2''
     = Some ''/v1/source-code/github/repositories?page=2''
   \<and> use_mount ''/v1/source-code'' ''/v1/source-code/github/repositories?page=2''
     = Some ''/github/repositories?page=2''
   \<and> use_mount ''/api'' ''/API/v1/source-code?page=2'' = Some ''/v1/source-code?page=2''
   \<and> use_mount ''/v1/source-code'' ''/v1/source-code?page=2'' = Some ''/?page=2''
   \<and> use_mount ''/api'' ''/apiary'' = None
   \<and> use_mount ''/api'' ''/health'' = None"
  by code_simp

lemma gateway_examples:
  "gateway env ''/api/v1/source-code/github/repositories?page=2''
     = Some \<lparr> fwd_host = sourceCodeServiceUrl env, fwd_path = ''/github/repositories?page=2'' \<rparr>
   \<and> gateway env ''/api/v1/source-code'' = Some \<lparr> fwd_host = sourceCodeServiceUrl env, fwd_path = ''/'' \<rparr>
   \<and> gateway env ''/api/v1/projects'' = None
   \<and> gateway env ''/api'' = None"
  by (simp add: gateway_def use_mount_def pathname_def to_lower_def proxyReqPathResolver_def
      replace_leading_def Let_def)

text \<open>
  For a remaining path that begins with one \<open>/\<close>, the gateway sends the request on under
  what the resolver makes of the remaining path and the query string: under the remaining
  path itself when that does not begin with \<open>/api/v1/source-code\<close> again.
\<close>

lemma gateway_remaining_path:
  assumes "c \<noteq> CHR ''/''"
  shows "gateway env (''/api/v1/source-code'' @ CHR ''/'' # c # cs)
           = Some \<lparr> fwd_host = sourceCodeServiceUrl env,
                    fwd_path = proxyReqPathResolver (CHR ''/'' # c # cs) \<rparr>"
  using assms
  by (cases "c = CHR ''?''")
     (simp_all add: gateway_def use_mount_def pathname_def to_lower_def Let_def split: list.splits)

lemma gateway_ordinary_path:
  assumes "c \<noteq> CHR ''/''" and "\<nexists>r. CHR ''/'' # c # cs = ''/api/v1/source-code'' @ r"
  shows "gateway env (''/api/v1/source-code'' @ CHR ''/'' # c # cs)
           = Some \<lparr> fwd_host = sourceCodeServiceUrl env, fwd_path = CHR ''/'' # c # cs \<rparr>"
  unfolding gateway_remaining_path [OF assms(1)] resolver_keeps_other [OF assms(2)] ..

text \<open>
  Claim C6 says that the gateway deletes the leading \<open>/api/v1/source-code\<close> and passes
  the remaining path and the query string on as they are. For a request whose remaining
  path begins with \<open>/api/v1/source-code\<close> again, the mounts take the first prefix off and the
  resolver the second: the request for \<open>/api/v1/source-code/api/v1/source-code/github/...\<close>
  is sent on under the same path as the request for \<open>/api/v1/source-code/github/...\<close>.
\<close>

theorem C6_gateway_deletes_prefix_twice:
  "gateway env ''/api/v1/source-code/api/v1/source-code/github/repositories?page=2''
     = Some \<lparr> fwd_host = sourceCodeServiceUrl env, fwd_path = ''/github/repositories?page=2'' \<rparr>
   \<and> gateway env ''/api/v1/source-code/github/repositories?page=2''
     = Some \<lparr> fwd_host = sourceCodeServiceUrl env, fwd_path = ''/github/repositories?page=2'' \<rparr>
   \<and> proxyReqPathResolver ''/api/v1/source-code/api/v1/source-code/github/repositories?page=2''
     = ''/api/v1/source-code/github/repositories?page=2''"
  by (simp add: gateway_def use_mount_def pathname_def to_lower_def proxyReqPathResolver_def
      replace_leading_def Let_def)

subsection \<open>API client\<close>

lemma client_request_timeout:
  "call_timeout c = None \<Longrightarrow> cfg_timeout (client_request env m u d c) = 30000"
  by (simp add: client_request_def request_interceptor_def merge_config_def apiClient_def)

text \<open>
  Claim C7. Every request that an endpoint of \<open>apiService\<close> (repository, project,
  analysis, health) issues through the API client carries the timeout of 30000
  milliseconds, whatever the configured base URL.
\<close>

theorem C7_api_client_timeout: "cfg_timeout (api_request env c) = 30000"
  by (cases c) (simp_all add: client_request_timeout no_config_def Let_def)

theorem C7_api_client_timeout_witness:
  "api_request None (GetAnalysisStatus ''42'')
     = \<lparr> cfg_method = ''get'', cfg_baseURL = ''http://localhost:8080/api/v1/source-code'',
         cfg_url = ''/analysis/analysis/42'', cfg_timeout = 30000,
         cfg_headers = [(''Content-Type'', ''application/json''), (''Accept'', ''application/json'')],
         cfg_data = None \<rparr>
   \<and> cfg_timeout (api_request (Some ''http://gateway/api'') (UploadFiles ''form'')) = 30000
   \<and> cfg_headers (api_request None (UploadFiles ''form''))
     = [(''Content-Type'', ''multipart/form-data''), (''Accept'', ''application/json'')]"
  using C7_api_client_timeout [where env = None and c = "GetAnalysisStatus ''42''"]
    C7_api_client_timeout [where env = "Some ''http://gateway/api''" and c = "UploadFiles ''form''"]
  by (simp add: client_request_def request_interceptor_def merge_config_def apiClient_def
      no_config_def truthy_str_def)

subsection \<open>Polling\<close>

lemma poll_delay_step: "poll_delay (poll_step st e) = poll_delay st"
  by (cases e) (simp_all add: Let_def split: option.splits)

lemma poll_delay_run: "poll_delay (poll_run st es) = poll_delay st"
  unfolding poll_run_def by (induction es arbitrary: st) (simp_all add: poll_delay_step)

text \<open>Once the hook's timer is cleared it stays cleared, and no request is issued.\<close>

lemma poll_cleared_step:
  "\<not> poll_timer st \<Longrightarrow>
     \<not> poll_timer (poll_step st e) \<and> poll_requests (poll_step st e) = poll_requests st"
  by (cases e) (simp_all add: Let_def split: option.splits)

lemma poll_cleared_run:
  "\<not> poll_timer st \<Longrightarrow> poll_requests (poll_run st es) = poll_requests st"
  unfolding poll_run_def
proof (induction es arbitrary: st)
  case Nil
  then show ?case by simp
next
  case (Cons e es)
  from poll_cleared_step [OF Cons.prems, of e]
  have "\<not> poll_timer (poll_step st e)" and "poll_requests (poll_step st e) = poll_requests st"
    by simp_all
  with Cons.IH [of "poll_step st e"] show ?case by simp
qed

text \<open>
  In the component the timer is registered exactly while the component is mounted and the
  stored status is not terminal, and then with the delay 5000.
\<close>

lemma progress_inv_mount:
  "(ap_timer mount \<longleftrightarrow> ap_mounted mount \<and> ap_status mount \<notin> {''completed'', ''failed''})
   \<and> (ap_timer mount \<longrightarrow> ap_delay mount = 5000)"
  by (simp add: mount_def effect_def)

lemma progress_inv_step:
  assumes "ap_timer st \<longleftrightarrow> ap_mounted st \<and> ap_status st \<notin> {''completed'', ''failed''}"
    and "ap_timer st \<longrightarrow> ap_delay st = 5000"
  shows "(ap_timer (progress_step st e) \<longleftrightarrow>
            ap_mounted (progress_step st e) \<and> ap_status (progress_step st e) \<notin> {''completed'', ''failed''})
         \<and> (ap_timer (progress_step st e) \<longrightarrow> ap_delay (progress_step st e) = 5000)"
proof (cases e)
  case Tick
  with assms show ?thesis by simp
next
  case (Response r)
  show ?thesis
  proof (cases r)
    case None
    with Response assms show ?thesis by (simp add: Let_def)
  next
    case (Some d)
    with Response assms show ?thesis by (simp add: Let_def effect_def)
  qed
next
  case Cleanup
  then show ?thesis by simp
qed

lemma progress_inv_run:
  "(ap_timer (progress_run mount es) \<longleftrightarrow>
      ap_mounted (progress_run mount es) \<and> ap_status (progress_run mount es) \<notin> {''completed'', ''failed''})
   \<and> (ap_timer (progress_run mount es) \<longrightarrow> ap_delay (progress_run mount es) = 5000)"
proof (induction es rule: rev_induct)
  case Nil
  then show ?case using progress_inv_mount by (simp add: progress_run_def)
next
  case (snoc e es)
  have "progress_run mount (es @ [e]) = progress_step (progress_run mount es) e"
    by (simp add: progress_run_def)
  with progress_inv_step [of "progress_run mount es" e] snoc show ?case by simp
qed

text \<open>With no timer and no pending request, the component issues no request any more.\<close>

lemma progress_quiet_step:
  assumes "\<not> ap_timer st" and "ap_pending st = 0"
  shows "\<not> ap_timer (progress_step st e) \<and> ap_pending (progress_step st e) = 0
         \<and> ap_requests (progress_step st e) = ap_requests st"
  using assms by (cases e) simp_all

lemma progress_quiet_run:
  "\<not> ap_timer st \<Longrightarrow> ap_pending st = 0 \<Longrightarrow> ap_requests (progress_run st es) = ap_requests st"
  unfolding progress_run_def
proof (induction es arbitrary: st)
  case Nil
  then show ?case by simp
next
  case (Cons e es)
  from progress_quiet_step [OF Cons.prems, of e]
  have "\<not> ap_timer (progress_step st e)" and "ap_pending (progress_step st e) = 0"
    and "ap_requests (progress_step st e) = ap_requests st"
    by simp_all
  with Cons.IH [of "progress_step st e"] show ?case by simp
qed

lemma progress_terminal_response:
  assumes inv: "ap_timer st \<longleftrightarrow> ap_mounted st \<and> ap_status st \<notin> {''completed'', ''failed''}"
    and pend: "ap_pending st > 0"
    and fin: "data_status d \<in> {''completed'', ''failed''}"
  shows "\<not> ap_timer (progress_step st (Response (Some d)))"
    and "ap_requests (progress_step st (Response (Some d))) = ap_requests st"
    and "ap_pending (progress_step st (Response (Some d))) = ap_pending st - 1"
  using assms by (auto simp: Let_def effect_def)

lemma progress_other_response:
  assumes inv: "ap_timer st \<longleftrightarrow> ap_mounted st \<and> ap_status st \<notin> {''completed'', ''failed''}"
    and dly: "ap_timer st \<longrightarrow> ap_delay st = 5000"
    and mounted: "ap_mounted st"
    and pend: "ap_pending st > 0"
    and other: "data_status d \<notin> {''completed'', ''failed''}"
  shows "ap_timer (progress_step st (Response (Some d)))
         \<and> ap_delay (progress_step st (Response (Some d))) = 5000"
  using assms by (auto simp: Let_def effect_def)

text \<open>
  The hook. The timer is registered with the given interval, 3000 ms by default, and the
  interval never changes. Once a fetched status is \<open>completed\<close> or \<open>failed\<close> the timer is
  cleared and no later event issues a status request, whatever answers arrive afterwards.
  Any other answer, and a failed request, leave the timer as it is, and a registered timer
  issues one request at each tick.
\<close>

lemma hook_interval:
  "poll_delay (pollAnalysisStatus None) = 3000 \<and> poll_delay (pollAnalysisStatus (Some ms)) = ms
   \<and> poll_timer (pollAnalysisStatus i)"
  by (simp add: pollAnalysisStatus_def)

lemma hook_stops_at_terminal:
  assumes "poll_pending st > 0" and "data_status d \<in> {''completed'', ''failed''}"
  shows "\<not> poll_timer (poll_step st (Response (Some d)))"
    and "poll_requests (poll_run (poll_step st (Response (Some d))) es) = poll_requests st"
proof -
  from assms show off: "\<not> poll_timer (poll_step st (Response (Some d)))"
    by (auto simp: Let_def)
  from assms have "poll_requests (poll_step st (Response (Some d))) = poll_requests st"
    by (auto simp: Let_def)
  with poll_cleared_run [OF off, of es]
  show "poll_requests (poll_run (poll_step st (Response (Some d))) es) = poll_requests st"
    by simp
qed

lemma hook_continues_otherwise:
  "data_status d \<notin> {''completed'', ''failed''} \<Longrightarrow>
     poll_timer (poll_step st (Response (Some d))) = poll_timer st"
  "poll_timer (poll_step st (Response None)) = poll_timer st"
  "poll_timer st \<Longrightarrow> poll_requests (poll_step st Tick) = poll_requests st + 1"
  by (simp_all add: Let_def)

text \<open>
  The hook on two overlapping requests, the first answered \<open>completed\<close> and the second
  \<open>running\<close> afterwards: the timer stays cleared and no third request is issued.
\<close>

lemma hook_ignores_late_answer:
  "poll_requests (poll_run (pollAnalysisStatus None)
      [Tick, Tick, Response (Some (answer ''completed'')), Response (Some (answer ''running'')), Tick]) = 2
   \<and> \<not> poll_timer (poll_run (pollAnalysisStatus None)
      [Tick, Tick, Response (Some (answer ''completed'')), Response (Some (answer ''running'')), Tick])"
  by (simp add: poll_run_def pollAnalysisStatus_def answer_def Let_def)

text \<open>
  The component. A terminal answer clears the timer, and no later event issues a request
  when it was the answer to the only pending request; any other fetched status leaves a
  timer of 5000 ms registered while the component is mounted, and a registered timer issues
  one request at each tick.
\<close>

lemma component_clears_timer_at_terminal:
  assumes "ap_pending (progress_run mount evs) > 0"
    and "data_status d \<in> {''completed'', ''failed''}"
  shows "\<not> ap_timer (progress_step (progress_run mount evs) (Response (Some d)))"
proof -
  from progress_inv_run [of evs]
  have inv: "ap_timer (progress_run mount evs) \<longleftrightarrow>
      ap_mounted (progress_run mount evs) \<and> ap_status (progress_run mount evs) \<notin> {''completed'', ''failed''}"
    by blast
  show ?thesis by (rule progress_terminal_response(1) [OF inv assms])
qed

lemma component_quiet_after_terminal:
  assumes "ap_pending (progress_run mount evs) = 1"
    and "data_status d \<in> {''completed'', ''failed''}"
  shows "ap_requests (progress_run (progress_step (progress_run mount evs) (Response (Some d))) es)
           = ap_requests (progress_run mount evs)"
proof -
  from progress_inv_run [of evs]
  have inv: "ap_timer (progress_run mount evs) \<longleftrightarrow>
      ap_mounted (progress_run mount evs) \<and> ap_status (progress_run mount evs) \<notin> {''completed'', ''failed''}"
    by blast
  from assms(1) have pend: "ap_pending (progress_run mount evs) > 0" by simp
  have off: "\<not> ap_timer (progress_step (progress_run mount evs) (Response (Some d)))"
    and same: "ap_requests (progress_step (progress_run mount evs) (Response (Some d)))
                 = ap_requests (progress_run mount evs)"
    and none: "ap_pending (progress_step (progress_run mount evs) (Response (Some d))) = 0"
    using progress_terminal_response [OF inv pend assms(2)] assms(1) by simp_all
  from progress_quiet_run [OF off none, of es] same show ?thesis by simp
qed

lemma component_continues_otherwise:
  assumes "ap_mounted (progress_run mount evs)" and "ap_pending (progress_run mount evs) > 0"
    and "data_status d \<notin> {''completed'', ''failed''}"
  shows "ap_timer (progress_step (progress_run mount evs) (Response (Some d)))
         \<and> ap_delay (progress_step (progress_run mount evs) (Response (Some d))) = 5000"
proof -
  from progress_inv_run [of evs]
  have inv1: "ap_timer (progress_run mount evs) \<longleftrightarrow>
      ap_mounted (progress_run mount evs) \<and> ap_status (progress_run mount evs) \<notin> {''completed'', ''failed''}"
    and inv2: "ap_timer (progress_run mount evs) \<longrightarrow> ap_delay (progress_run mount evs) = 5000"
    by blast+
  show ?thesis by (rule progress_other_response [OF inv1 inv2 assms])
qed

lemma component_tick:
  "ap_timer st \<Longrightarrow> ap_requests (progress_step st Tick) = ap_requests st + 1"
  by simp

text \<open>
  Claim C5 says that in both loops no further status request is issued once a fetched
  status is \<open>completed\<close> or \<open>failed\<close>. The effect of the component begins with the comment
  \<open>Don't poll if analysis is completed or failed\<close>, but its cleanup does not discard the
  answers of requests that are still pending. The first request (issued on mounting) is
  still pending when the timer issues the second; the second is answered \<open>completed\<close>,
  which clears the timer; the late answer \<open>running\<close> to the first request then stores a
  status that is not terminal, and the effect issues a third request and registers a new
  timer.
\<close>

theorem C5_component_polls_again_after_terminal:
  "ap_status (progress_run mount [Tick, Response (Some (answer ''completed''))]) = ''completed''
   \<and> \<not> ap_timer (progress_run mount [Tick, Response (Some (answer ''completed''))])
   \<and> ap_requests (progress_run mount [Tick, Response (Some (answer ''completed''))]) = 2
   \<and> ap_requests (progress_run mount
        [Tick, Response (Some (answer ''completed'')), Response (Some (answer ''running''))]) = 3
   \<and> ap_timer (progress_run mount
        [Tick, Response (Some (answer ''completed'')), Response (Some (answer ''running''))])"
  by (simp add: progress_run_def mount_def effect_def answer_def Let_def)

end
